theory Spec2Isabelle
  imports Complex_Main
begin

section \<open>Cache service (services/cacheService.ts)\<close>

text \<open>
  The cache is one table of the hosted database, \<^verbatim>\<open>cache(key TEXT PRIMARY KEY,
  value JSONB NOT NULL, expires_at TIMESTAMPTZ NOT NULL)\<close>. The primary key makes it a
  finite map from keys to rows. Values are the non-null JSON values (type \<open>'v\<close>);
  \<open>null\<close>, the result of a miss, is \<open>None\<close>. Times are milliseconds since the epoch, as
  \<^verbatim>\<open>Date.now()\<close> gives them; \<^verbatim>\<open>toISOString\<close> keeps milliseconds, so the stored
  expiry is the computed one.

  Every call of the database client can fail. A flag per call says whether the database
  executed the statement; a failed statement leaves the table as it was.
\<close>

record 'v cache_entry =
  entry_value :: 'v
  expires_at :: int

type_synonym 'v cache_table = "string \<rightharpoonup> 'v cache_entry"

datatype error = DbError | RangeError | UpstreamError | ExtractError

text \<open>\<^verbatim>\<open>supabase.from('cache').delete().<filter>\<close>: the rows the filter selects go.\<close>

definition db_delete_where ::
  "(string \<Rightarrow> 'v cache_entry \<Rightarrow> bool) \<Rightarrow> 'v cache_table \<Rightarrow> 'v cache_table" where
  "db_delete_where P tbl =
     (\<lambda>k. case tbl k of None \<Rightarrow> None | Some e \<Rightarrow> if P k e then None else Some e)"

text \<open>\<^verbatim>\<open>CacheService.delete(key)\<close>: throws when the database reports an error.\<close>

definition cache_delete ::
  "bool \<Rightarrow> string \<Rightarrow> 'v cache_table \<Rightarrow> (error + unit) \<times> 'v cache_table" where
  "cache_delete ok key tbl =
     (if ok then (Inr (), db_delete_where (\<lambda>k e. k = key) tbl) else (Inl DbError, tbl))"

text \<open>
  \<^verbatim>\<open>CacheService.get(key)\<close> at time \<open>now\<close>. \<open>sel_ok\<close> is the outcome of the select,
  \<open>del_ok\<close> that of the delete of an expired row. \<^verbatim>\<open>.single()\<close> reports an error when
  no row has the key. Every exception is caught and gives \<open>null\<close>.
\<close>

definition cache_get ::
  "bool \<Rightarrow> bool \<Rightarrow> int \<Rightarrow> string \<Rightarrow> 'v cache_table \<Rightarrow> 'v option \<times> 'v cache_table" where
  "cache_get sel_ok del_ok now key tbl =
     (if \<not> sel_ok then (None, tbl)
      else case tbl key of
        None \<Rightarrow> (None, tbl)
      | Some e \<Rightarrow>
          if expires_at e < now then (None, snd (cache_delete del_ok key tbl))
          else (Some (entry_value e), tbl))"

text \<open>
  The largest time value of a \<^verbatim>\<open>Date\<close>; beyond it the date is invalid and
  \<^verbatim>\<open>toISOString\<close> throws a RangeError.
\<close>

definition max_time :: int where
  "max_time = 8640000000000000"

text \<open>
  \<^verbatim>\<open>CacheService.set(key, value, ttlSeconds)\<close> at time \<open>now\<close>: an upsert of the row
  with expiry \<open>now + ttlSeconds * 1000\<close>. It rethrows every error.
\<close>

definition cache_set ::
  "bool \<Rightarrow> int \<Rightarrow> string \<Rightarrow> 'v \<Rightarrow> int \<Rightarrow> 'v cache_table \<Rightarrow> (error + unit) \<times> 'v cache_table" where
  "cache_set ok now key v ttlSeconds tbl =
     (let expiresAt = now + ttlSeconds * 1000 in
      if \<bar>expiresAt\<bar> > max_time then (Inl RangeError, tbl)
      else if ok then (Inr (), tbl(key \<mapsto> \<lparr>entry_value = v, expires_at = expiresAt\<rparr>))
      else (Inl DbError, tbl))"

text \<open>\<^verbatim>\<open>CacheService.clearExpired()\<close> at time \<open>now\<close>: delete where \<open>expires_at < now\<close>.\<close>

definition cache_clearExpired ::
  "bool \<Rightarrow> int \<Rightarrow> 'v cache_table \<Rightarrow> (error + unit) \<times> 'v cache_table" where
  "cache_clearExpired ok now tbl =
     (if ok then (Inr (), db_delete_where (\<lambda>k e. expires_at e < now) tbl)
      else (Inl DbError, tbl))"

section \<open>Strings\<close>

text \<open>
  A string is a list of characters, and a character is a UTF-16 code unit below 256:
  the model covers the strings of the Latin-1 range, ASCII included, and on every one
  of them the functions of this section compute what the language's do. Strings with
  code units from 256 on are not inputs of the model.

  \<^verbatim>\<open>toLowerCase\<close> maps the letters A to Z to a to z and the accented capitals
  U+00C0 to U+00DE (the multiplication sign U+00D7 is not a letter) to the character 32
  places on; every other character of the range is its own lower case.
\<close>

definition upper_case :: "char list" where
  "upper_case = ''ABCDEFGHIJKLMNOPQRSTUVWXYZ'' @
     [CHR 0xC0, CHR 0xC1, CHR 0xC2, CHR 0xC3, CHR 0xC4, CHR 0xC5, CHR 0xC6, CHR 0xC7,
      CHR 0xC8, CHR 0xC9, CHR 0xCA, CHR 0xCB, CHR 0xCC, CHR 0xCD, CHR 0xCE, CHR 0xCF,
      CHR 0xD0, CHR 0xD1, CHR 0xD2, CHR 0xD3, CHR 0xD4, CHR 0xD5, CHR 0xD6, CHR 0xD8,
      CHR 0xD9, CHR 0xDA, CHR 0xDB, CHR 0xDC, CHR 0xDD, CHR 0xDE]"

definition lower_case :: "char list" where
  "lower_case = ''abcdefghijklmnopqrstuvwxyz'' @
     [CHR 0xE0, CHR 0xE1, CHR 0xE2, CHR 0xE3, CHR 0xE4, CHR 0xE5, CHR 0xE6, CHR 0xE7,
      CHR 0xE8, CHR 0xE9, CHR 0xEA, CHR 0xEB, CHR 0xEC, CHR 0xED, CHR 0xEE, CHR 0xEF,
      CHR 0xF0, CHR 0xF1, CHR 0xF2, CHR 0xF3, CHR 0xF4, CHR 0xF5, CHR 0xF6, CHR 0xF8,
      CHR 0xF9, CHR 0xFA, CHR 0xFB, CHR 0xFC, CHR 0xFD, CHR 0xFE]"

definition toLowerCase_char :: "char \<Rightarrow> char" where
  "toLowerCase_char c =
     (case map_of (zip upper_case lower_case) c of
        Some l \<Rightarrow> l
      | None \<Rightarrow> c)"

definition toLowerCase :: "string \<Rightarrow> string" where
  "toLowerCase s = map toLowerCase_char s"

definition startsWith :: "string \<Rightarrow> string \<Rightarrow> bool" where
  "startsWith s sub = (take (length sub) s = sub)"

text \<open>\<^verbatim>\<open>s.includes(sub)\<close>: \<open>sub\<close> occurs in \<open>s\<close> at some position.\<close>

fun str_includes :: "string \<Rightarrow> string \<Rightarrow> bool" where
  "str_includes [] sub = (sub = [])"
| "str_includes (c # cs) sub = (startsWith (c # cs) sub \<or> str_includes cs sub)"

text \<open>
  \<^verbatim>\<open>trim\<close> removes white space and line terminators at both ends. Below 256 these
  are tab, LF, VT, FF, CR, space and the no-break space U+00A0.
\<close>

definition is_space :: "char \<Rightarrow> bool" where
  "is_space c =
     (c \<in> set [CHR 0x09, CHR 0x0A, CHR 0x0B, CHR 0x0C, CHR 0x0D, CHR '' '', CHR 0xA0])"

definition trim :: "string \<Rightarrow> string" where
  "trim s = rev (dropWhile is_space (rev (dropWhile is_space s)))"

section \<open>Bluesky service (services/blueskyService.ts)\<close>

datatype priority = Low | Medium | High | Urgent

text \<open>\<^verbatim>\<open>BlueskyService.classifyPriority\<close>: three keyword groups, tested in this order.\<close>

definition classifyPriority :: "string \<Rightarrow> priority" where
  "classifyPriority content =
     (let lowerContent = toLowerCase content in
      if str_includes lowerContent ''urgent'' \<or> str_includes lowerContent ''sos''
         \<or> str_includes lowerContent ''emergency'' then Urgent
      else if str_includes lowerContent ''critical'' \<or> str_includes lowerContent ''severe''
         \<or> str_includes lowerContent ''danger'' then High
      else if str_includes lowerContent ''warning'' \<or> str_includes lowerContent ''alert''
         \<or> str_includes lowerContent ''caution'' then Medium
      else Low)"

section \<open>Gemini service (services/geminiService.ts)\<close>

text \<open>
  The three methods share one shape: look the cache up, call the model, post-process the
  text, store the result, return it. What the outside world answers is an input of the
  model: \<open>cached\<close> is the value the cache returned when it is truthy and \<open>None\<close>
  otherwise (\<open>getCachedData\<close> never throws), an upstream call gives \<open>Inl\<close> when it
  throws and \<open>Inr\<close> its text otherwise, and \<open>set_ok\<close> says whether \<open>setCachedData\<close>
  returned (it throws on a database error).
\<close>

type_synonym number = real

record GeocodingResult =
  gr_location_name :: string
  gr_lat :: number
  gr_lng :: number
  gr_formatted_address :: string

text \<open>
  \<^verbatim>\<open>GeminiService.extractLocation\<close>. Every exception inside, a failed cache write
  included, is rethrown as one error.
\<close>

definition extractLocation ::
  "GeocodingResult option \<Rightarrow> error + string \<Rightarrow> bool \<Rightarrow> error + GeocodingResult option" where
  "extractLocation cached upstream set_ok =
     (case cached of
        Some c \<Rightarrow> Inr (Some c)
      | None \<Rightarrow>
          (case upstream of
             Inl _ \<Rightarrow> Inl ExtractError
           | Inr text \<Rightarrow>
               let locationName = trim text in
               if locationName = [] \<or> str_includes (toLowerCase locationName) ''null''
                  \<or> str_includes (toLowerCase locationName) ''no location''
               then Inr None
               else if set_ok
               then Inr (Some \<lparr>gr_location_name = locationName, gr_lat = 0, gr_lng = 0,
                               gr_formatted_address = locationName\<rparr>)
               else Inl ExtractError))"

record ImageVerificationResult =
  is_authentic :: bool
  confidence :: int
  analysis :: string
  detected_manipulations :: "string list"

text \<open>
  The result of \<^verbatim>\<open>JSON.parse\<close> is returned unchecked, so a verification is either a
  record built by the code or whatever JSON value (type \<open>'j\<close>) the parser gave.
\<close>

datatype 'j verification = Fields ImageVerificationResult | Json 'j

text \<open>
  \<^verbatim>\<open>analysisText.match(/\{[\s\S]*\}/)\<close>: the span from the first opening brace to the
  last closing brace after it, when there is one.
\<close>

definition json_match :: "string \<Rightarrow> string option" where
  "json_match s =
     (case dropWhile (\<lambda>c. c \<noteq> CHR ''{'') s of
        [] \<Rightarrow> None
      | b # rest \<Rightarrow>
          (case dropWhile (\<lambda>c. c \<noteq> CHR ''}'') (rev rest) of
             [] \<Rightarrow> None
           | body \<Rightarrow> Some (b # rev body)))"

text \<open>The inner \<^verbatim>\<open>try\<close> of \<open>verifyImage\<close>; \<open>parse\<close> is \<^verbatim>\<open>JSON.parse\<close>, \<open>None\<close> when it throws.\<close>

definition parse_analysis :: "(string \<Rightarrow> 'j option) \<Rightarrow> string \<Rightarrow> 'j verification" where
  "parse_analysis parse analysisText =
     (case json_match analysisText of
        Some m \<Rightarrow>
          (case parse m of
             Some j \<Rightarrow> Json j
           | None \<Rightarrow> Fields \<lparr>is_authentic = True, confidence = 50,
                               analysis = analysisText, detected_manipulations = []\<rparr>)
      | None \<Rightarrow>
          Fields \<lparr>is_authentic = (\<not> str_includes (toLowerCase analysisText) ''fake''
                                   \<and> \<not> str_includes (toLowerCase analysisText) ''manipulated''),
                  confidence = (if str_includes analysisText ''high'' then 80
                                else if str_includes analysisText ''medium'' then 60 else 40),
                  analysis = analysisText,
                  detected_manipulations =
                    (if str_includes (toLowerCase analysisText) ''manipulation''
                     then [''Potential editing detected''] else [])\<rparr>)"

text \<open>The result of the outer \<^verbatim>\<open>catch\<close> of \<open>verifyImage\<close>.\<close>

definition verifyImage_error_result :: ImageVerificationResult where
  "verifyImage_error_result =
     \<lparr>is_authentic = True, confidence = 30,
      analysis = ''Unable to verify image due to technical error'',
      detected_manipulations = []\<rparr>"

text \<open>
  \<^verbatim>\<open>GeminiService.verifyImage\<close>. \<open>download\<close> is the image download: \<open>Inl\<close> when \<open>fetch\<close> or
  reading the body throws, \<open>Inr ok\<close> with the response's \<open>ok\<close> flag otherwise. \<open>vision\<close>
  is the call of the vision model.
\<close>

definition verifyImage ::
  "(string \<Rightarrow> 'j option) \<Rightarrow> 'j verification option \<Rightarrow> error + bool \<Rightarrow> error + string \<Rightarrow> bool
     \<Rightarrow> 'j verification" where
  "verifyImage parse cached download vision set_ok =
     (case cached of
        Some c \<Rightarrow> c
      | None \<Rightarrow>
          (case download of
             Inl _ \<Rightarrow> Fields verifyImage_error_result
           | Inr ok \<Rightarrow>
               if \<not> ok then Fields verifyImage_error_result
               else
                 (case vision of
                    Inl _ \<Rightarrow> Fields verifyImage_error_result
                  | Inr analysisText \<Rightarrow>
                      let verificationResult = parse_analysis parse analysisText in
                      if set_ok then verificationResult
                      else Fields verifyImage_error_result)))"

definition validPriorities :: "string list" where
  "validPriorities = [''low'', ''medium'', ''high'', ''urgent'']"

text \<open>\<^verbatim>\<open>GeminiService.classifySocialMediaPriority\<close>; the result is the priority's name.\<close>

definition classifySocialMediaPriority ::
  "string option \<Rightarrow> error + string \<Rightarrow> bool \<Rightarrow> string" where
  "classifySocialMediaPriority cached upstream set_ok =
     (case cached of
        Some c \<Rightarrow> c
      | None \<Rightarrow>
          (case upstream of
             Inl _ \<Rightarrow> ''medium''
           | Inr text \<Rightarrow>
               let priority = toLowerCase (trim text);
                   finalPriority = (if priority \<in> set validPriorities then priority
                                    else ''medium'')
               in if set_ok then finalPriority else ''medium''))"

section \<open>Data model (types/index.ts)\<close>

record UpdateDisasterRequest =
  u_title :: "string option"
  u_location_name :: "string option"
  u_description :: "string option"
  u_tags :: "string list option"

record AuditTrail =
  action :: string
  user_id :: string
  timestamp :: int
  details :: "UpdateDisasterRequest option"

text \<open>
  A disaster, as a row of the database table and as an entry of the fixture array. The
  location is \<open>(lat, lng)\<close>; the table's column is nullable. Timestamps are milliseconds.
\<close>

record Disaster =
  d_id :: string
  d_title :: string
  d_location_name :: string
  d_location :: "(number \<times> number) option"
  d_description :: string
  d_tags :: "string list"
  d_owner_id :: string
  d_created_at :: int
  d_updated_at :: int
  d_audit_trail :: "AuditTrail list"

record CreateDisasterRequest =
  c_title :: "string option"
  c_location_name :: "string option"
  c_description :: "string option"
  c_tags :: "string list option"

text \<open>
  A list response carries \<open>page\<close>, \<open>limit\<close>, \<open>total\<close> and \<open>totalPages\<close>. \<open>None\<close> is the
  \<open>null\<close> that JSON gives for NaN and the infinities.
\<close>

record Pagination =
  pg_page :: "int option"
  pg_limit :: "int option"
  pg_total :: nat
  pg_totalPages :: "int option"

text \<open>The HTTP status and the envelope \<open>{success, data?, error?, message?, pagination?}\<close>.\<close>

record 'd response =
  status :: nat
  success :: bool
  data :: "'d option"
  error_text :: "string option"
  message :: "string option"
  pagination :: "Pagination option"

definition reply :: "nat \<Rightarrow> bool \<Rightarrow> 'd option \<Rightarrow> string option \<Rightarrow> string option \<Rightarrow> 'd response" where
  "reply st ok d e m =
     \<lparr>status = st, success = ok, data = d, error_text = e, message = m, pagination = None\<rparr>"

section \<open>JavaScript values\<close>

text \<open>A string field of a JSON body is falsy when it is missing or empty.\<close>

definition falsy :: "string option \<Rightarrow> bool" where
  "falsy s = (case s of None \<Rightarrow> True | Some t \<Rightarrow> t = [])"

text \<open>\<^verbatim>\<open>a || b\<close> on an optional string and a default.\<close>

definition or_else :: "string option \<Rightarrow> string \<Rightarrow> string" where
  "or_else s dflt = (case s of None \<Rightarrow> dflt | Some t \<Rightarrow> if t = [] then dflt else t)"

text \<open>Decimal digits of a number, as a template literal prints \<^verbatim>\<open>Date.now()\<close>.\<close>

fun decimal :: "nat \<Rightarrow> string" where
  "decimal n = (if n < 10 then [''0123456789'' ! n]
                else decimal (n div 10) @ [''0123456789'' ! (n mod 10)])"

declare decimal.simps [simp del]

definition show_int :: "int \<Rightarrow> string" where
  "show_int i = (if i < 0 then CHR ''-'' # decimal (nat (- i)) else decimal (nat i))"

text \<open>
  The integers that \<^verbatim>\<open>parseInt\<close> gives are \<open>Some\<close>, NaN is \<open>None\<close>. The arithmetic
  below is exact on the integers a double holds exactly. \<^verbatim>\<open>parseInt\<close> gives an
  infinity only for a number of more than 308 digits; a request with such a page or
  limit is not an input of the model.
\<close>

definition js_sub :: "int option \<Rightarrow> int option \<Rightarrow> int option" where
  "js_sub a b = (case (a, b) of (Some x, Some y) \<Rightarrow> Some (x - y) | _ \<Rightarrow> None)"

definition js_add :: "int option \<Rightarrow> int option \<Rightarrow> int option" where
  "js_add a b = (case (a, b) of (Some x, Some y) \<Rightarrow> Some (x + y) | _ \<Rightarrow> None)"

definition js_mul :: "int option \<Rightarrow> int option \<Rightarrow> int option" where
  "js_mul a b = (case (a, b) of (Some x, Some y) \<Rightarrow> Some (x * y) | _ \<Rightarrow> None)"

text \<open>
  \<^verbatim>\<open>Math.ceil(total / limit)\<close> as it appears in the JSON body: NaN for a NaN limit and
  for 0/0, an infinity for a division of a positive total by zero, both printed as
  \<open>null\<close>.
\<close>

definition ceil_div :: "nat \<Rightarrow> int option \<Rightarrow> int option" where
  "ceil_div total_rows limit =
     (case limit of
        None \<Rightarrow> None
      | Some l \<Rightarrow> if l = 0 then None else Some (- ((- int total_rows) div l)))"

text \<open>
  \<^verbatim>\<open>Array.prototype.slice(start, end)\<close>: NaN counts as 0, a negative index counts from
  the end, both are clamped to the array.
\<close>

definition slice_index :: "nat \<Rightarrow> int option \<Rightarrow> nat" where
  "slice_index len i =
     (case i of
        None \<Rightarrow> 0
      | Some k \<Rightarrow> if k < 0 then nat (max (int len + k) 0) else min (nat k) len)"

definition js_slice :: "'a list \<Rightarrow> int option \<Rightarrow> int option \<Rightarrow> 'a list" where
  "js_slice xs start end' =
     (let k = slice_index (length xs) start; final = slice_index (length xs) end'
      in take (final - k) (drop k xs))"

section \<open>Fixture store (services/mockDataService.ts)\<close>

text \<open>The module-level array \<open>mockDisasters\<close> is the state; the methods never throw.\<close>

definition mock_getDisasters ::
  "int option \<Rightarrow> int option \<Rightarrow> Disaster list \<Rightarrow> Disaster list \<times> nat" where
  "mock_getDisasters page limit mockDisasters =
     (let start = js_mul (js_sub page (Some 1)) limit;
          end' = js_add start limit
      in (js_slice mockDisasters start end', length mockDisasters))"

definition mock_getDisasterById :: "string \<Rightarrow> Disaster list \<Rightarrow> Disaster option" where
  "mock_getDisasterById i mockDisasters = find (\<lambda>d. d_id d = i) mockDisasters"

text \<open>
  \<open>createDisaster\<close> gets the record without id and timestamps (here: with fields that
  are overwritten), stamps it with the time \<open>now\<close> and appends it.
\<close>

definition mock_createDisaster :: "int \<Rightarrow> Disaster \<Rightarrow> Disaster list \<Rightarrow> Disaster \<times> Disaster list" where
  "mock_createDisaster now disaster mockDisasters =
     (let newDisaster = disaster\<lparr>d_id := ''disaster-'' @ show_int now,
                                  d_created_at := now, d_updated_at := now\<rparr>
      in (newDisaster, mockDisasters @ [newDisaster]))"

section \<open>Disaster routes (routes/disasters.ts)\<close>

text \<open>
  The state a request can change: the \<open>disasters\<close> table of the hosted database, the
  fixture array, and the events emitted on the socket.
\<close>

datatype event = Disaster_updated Disaster

record world =
  db_disasters :: "Disaster list"
  mockDisasters :: "Disaster list"
  emitted :: "event list"

text \<open>
  A call of the database client returns a result, returns an error object, or throws.
\<close>

datatype db_outcome = DbOk | DbErr | DbThrow

text \<open>
  What the outside answers to a \<open>POST\<close> or \<open>PUT\<close>: the cache and the model inside
  \<open>extractLocation\<close>, the geocoder (\<open>geocode\<close> catches every exception and returns a
  result or \<open>null\<close>), the database call, the id and time the database gives a new row,
  and the server's clock.
\<close>

record env =
  cached_extraction :: "GeocodingResult option"
  gemini :: "error + string"
  extraction_set_ok :: bool
  geocode :: "string \<Rightarrow> GeocodingResult option"
  db_fetch :: db_outcome
  db_write :: db_outcome
  db_new_id :: string
  db_now :: int
  server_now :: int

definition create_audit :: "string \<Rightarrow> int \<Rightarrow> AuditTrail list" where
  "create_audit owner_id t =
     [\<lparr>action = ''create'', user_id = owner_id, timestamp = t, details = None\<rparr>]"

text \<open>
  \<^verbatim>\<open>router.post('/')\<close>. \<open>header\<close> is the \<open>x-user-id\<close> header. An exception of
  \<open>extractLocation\<close> reaches the outer \<open>catch\<close>; an error or exception of the insert
  reaches the inner one, which creates the record in the fixture store.
\<close>

definition post_disaster ::
  "env \<Rightarrow> string option \<Rightarrow> CreateDisasterRequest \<Rightarrow> world \<Rightarrow> Disaster response \<times> world" where
  "post_disaster e header req w =
     (let owner_id = or_else header ''anonymous'' in
      if falsy (c_title req) \<or> falsy (c_description req)
      then (reply 400 False None (Some ''Title and description are required'') None, w)
      else
        let title = the (c_title req); description = the (c_description req);
            extracted = (if falsy (c_location_name req)
                         then extractLocation (cached_extraction e) (gemini e) (extraction_set_ok e)
                         else Inr None)
        in (case extracted of
             Inl _ \<Rightarrow> (reply 500 False None (Some ''Internal server error'') None, w)
           | Inr ex \<Rightarrow>
               let finalLocationName =
                     (if falsy (c_location_name req)
                      then (case ex of Some g \<Rightarrow> Some (gr_location_name g)
                                     | None \<Rightarrow> c_location_name req)
                      else c_location_name req);
                   location =
                     (if falsy finalLocationName then None
                      else map_option (\<lambda>g. (gr_lat g, gr_lng g))
                             (geocode e (the finalLocationName)));
                   tags = (case c_tags req of None \<Rightarrow> [] | Some t \<Rightarrow> t)
               in if db_write e = DbOk
                  then
                    let disaster =
                          \<lparr>d_id = db_new_id e, d_title = title,
                           d_location_name = or_else finalLocationName ''Unknown Location'',
                           d_location = location, d_description = description,
                           d_tags = tags, d_owner_id = owner_id,
                           d_created_at = db_now e, d_updated_at = db_now e,
                           d_audit_trail = create_audit owner_id (server_now e)\<rparr>
                    in (reply 201 True (Some disaster) None
                          (Some ''Disaster created successfully''),
                        w\<lparr>db_disasters := db_disasters w @ [disaster],
                          emitted := emitted w @ [Disaster_updated disaster]\<rparr>)
                  else
                    let (disaster, mock') =
                          mock_createDisaster (server_now e)
                            \<lparr>d_id = [], d_title = title,
                             d_location_name = or_else finalLocationName ''Unknown Location'',
                             d_location = Some (case location of None \<Rightarrow> (0, 0) | Some l \<Rightarrow> l),
                             d_description = description,
                             d_tags = tags, d_owner_id = owner_id,
                             d_created_at = 0, d_updated_at = 0,
                             d_audit_trail = create_audit owner_id (server_now e)\<rparr>
                            (mockDisasters w)
                    in (reply 201 True (Some disaster) None
                          (Some ''Disaster created successfully (mock mode)''),
                        w\<lparr>mockDisasters := mock',
                          emitted := emitted w @ [Disaster_updated disaster]\<rparr>)))"

text \<open>
  What the database answers to the two queries of a list request: the outcome of the
  count query with its count, and the outcome of the page query with its rows. The
  filters of the request only shape the query that the database evaluates.
\<close>

record list_env =
  count_outcome :: db_outcome
  count_rows :: "nat option"
  page_outcome :: db_outcome
  page_rows :: "Disaster list option"

text \<open>
  \<^verbatim>\<open>router.get('/')\<close> with \<open>page\<close> and \<open>limit\<close> as \<^verbatim>\<open>parseInt\<close> read them. The
  count query's error object is ignored; the page query's is thrown. Every exception of
  the database part ends in the fixture store.
\<close>

definition get_disasters ::
  "list_env \<Rightarrow> int option \<Rightarrow> int option \<Rightarrow> world \<Rightarrow> Disaster list response" where
  "get_disasters le page limit w =
     (if count_outcome le = DbThrow \<or> page_outcome le \<noteq> DbOk
      then
        let (rows, n) = mock_getDisasters page limit (mockDisasters w)
        in \<lparr>status = 200, success = True, data = Some rows, error_text = None,
            message = None,
            pagination = Some \<lparr>pg_page = page, pg_limit = limit, pg_total = n,
                                pg_totalPages = ceil_div n limit\<rparr>\<rparr>
      else
        let n = (if count_outcome le = DbOk
                 then (case count_rows le of None \<Rightarrow> 0 | Some c \<Rightarrow> c) else 0)
        in \<lparr>status = 200, success = True,
            data = Some (case page_rows le of None \<Rightarrow> [] | Some r \<Rightarrow> r),
            error_text = None, message = None,
            pagination = Some \<lparr>pg_page = page, pg_limit = limit, pg_total = n,
                                pg_totalPages = ceil_div n limit\<rparr>\<rparr>)"

text \<open>
  \<^verbatim>\<open>router.put('/:id')\<close>. There is one \<open>try\<close>: an exception of the database client
  or of \<open>extractLocation\<close> gives 500, an error object of the lookup (also: no row with the
  id) gives 404, an error object of the update gives 500. The fixture store is not used.
\<close>

definition put_disaster ::
  "env \<Rightarrow> string option \<Rightarrow> string \<Rightarrow> UpdateDisasterRequest \<Rightarrow> world \<Rightarrow> Disaster response \<times> world" where
  "put_disaster e header i updates w =
     (let user = or_else header ''anonymous'' in
      case db_fetch e of
        DbThrow \<Rightarrow> (reply 500 False None (Some ''Internal server error'') None, w)
      | DbErr \<Rightarrow> (reply 404 False None (Some ''Disaster not found'') None, w)
      | DbOk \<Rightarrow>
          (case find (\<lambda>d. d_id d = i) (db_disasters w) of
             None \<Rightarrow> (reply 404 False None (Some ''Disaster not found'') None, w)
           | Some existingDisaster \<Rightarrow>
               let extracted =
                     (if falsy (u_location_name updates) \<and> \<not> falsy (u_description updates)
                      then extractLocation (cached_extraction e) (gemini e) (extraction_set_ok e)
                      else Inr None)
               in (case extracted of
                    Inl _ \<Rightarrow> (reply 500 False None (Some ''Internal server error'') None, w)
                  | Inr ex \<Rightarrow>
                      let finalLocationName =
                            (case ex of
                               Some g \<Rightarrow> gr_location_name g
                             | None \<Rightarrow> or_else (u_location_name updates)
                                         (d_location_name existingDisaster));
                          geocoded =
                            (if finalLocationName \<noteq> d_location_name existingDisaster
                             then geocode e finalLocationName else None);
                          auditTrail = d_audit_trail existingDisaster @
                            [\<lparr>action = ''update'', user_id = user, timestamp = server_now e,
                              details = Some updates\<rparr>];
                          updatedDisaster = existingDisaster
                            \<lparr>d_title := or_else (u_title updates) (d_title existingDisaster),
                             d_description := or_else (u_description updates)
                                                (d_description existingDisaster),
                             d_tags := (case u_tags updates of
                                          None \<Rightarrow> d_tags existingDisaster | Some t \<Rightarrow> t),
                             d_location_name := (case geocoded of
                                          None \<Rightarrow> d_location_name existingDisaster
                                        | Some g \<Rightarrow> finalLocationName),
                             d_location := (case geocoded of
                                          None \<Rightarrow> d_location existingDisaster
                                        | Some g \<Rightarrow> Some (gr_lat g, gr_lng g)),
                             d_audit_trail := auditTrail,
                             d_updated_at := server_now e\<rparr>
                      in (case db_write e of
                           DbThrow \<Rightarrow>
                             (reply 500 False None (Some ''Internal server error'') None, w)
                         | DbErr \<Rightarrow>
                             (reply 500 False None (Some ''Failed to update disaster'') None, w)
                         | DbOk \<Rightarrow>
                             (reply 200 True (Some updatedDisaster) None
                                (Some ''Disaster updated successfully''),
                              w\<lparr>db_disasters :=
                                    map (\<lambda>d. if d_id d = i then updatedDisaster else d)
                                      (db_disasters w),
                                emitted := emitted w @ [Disaster_updated updatedDisaster]\<rparr>)))))"

section \<open>Real-time data service (services/realTimeDataService.ts)\<close>

record SocialMediaPost =
  p_id :: string
  p_platform :: string
  p_user :: string
  p_content :: string
  p_timestamp :: string
  p_disaster_id :: "string option"
  p_priority :: priority
  p_engagement :: "(nat \<times> nat \<times> nat) option"

record Resource =
  r_id :: string
  r_disaster_id :: string
  r_name :: string
  r_location_name :: string
  r_location :: "(number \<times> number) option"
  r_type :: string
  r_capacity :: "number option"
  r_available :: bool
  r_created_at :: int

text \<open>
  The per-source methods use the cache service. Each reads and writes only keys with its
  own prefix, and nothing else in the repository writes keys with the three prefixes
  below; the model gives a method the rows of the cache table under its prefix, with the
  lists it stored as values. \<open>cache_io\<close> holds what the database answers to the calls
  of one method, and the clock.
\<close>

record cache_io =
  select_ok :: bool
  delete_ok :: bool
  upsert_ok :: bool
  clock :: int

text \<open>\<^verbatim>\<open>`prefix:${disasterId || 'all'}`\<close>\<close>

definition cacheKey :: "string \<Rightarrow> string option \<Rightarrow> string" where
  "cacheKey prefix disasterId = prefix @ or_else disasterId ''all''"

text \<open>
  The tail every method shares: store the list with its ttl and return it; a failed
  store reaches the outer \<open>catch\<close>, which returns the empty list.
\<close>

definition store_and_return ::
  "cache_io \<Rightarrow> string \<Rightarrow> 'a list \<Rightarrow> int \<Rightarrow> 'a list cache_table \<Rightarrow> 'a list \<times> 'a list cache_table" where
  "store_and_return io key xs ttl tbl =
     (case cache_set (upsert_ok io) (clock io) key xs ttl tbl of
        (Inl _, tbl') \<Rightarrow> ([], tbl')
      | (Inr _, tbl') \<Rightarrow> (xs, tbl'))"

text \<open>A source that throws adds nothing to the list being collected.\<close>

definition source_or_empty :: "error + 'a list \<Rightarrow> 'a list" where
  "source_or_empty r = (case r of Inl _ \<Rightarrow> [] | Inr xs \<Rightarrow> xs)"

text \<open>
  \<^verbatim>\<open>getRealTimeDisasters(disasterId)\<close>. The three sources (Bluesky mentions, emergency
  services, weather alerts) are given by their outcomes. A cached list, empty or not,
  is returned as it is.
\<close>

definition getRealTimeDisasters ::
  "cache_io \<Rightarrow> error + Disaster list \<Rightarrow> error + Disaster list \<Rightarrow> error + Disaster list
     \<Rightarrow> string option \<Rightarrow> Disaster list cache_table \<Rightarrow> Disaster list \<times> Disaster list cache_table" where
  "getRealTimeDisasters io blueskyDisasters emergencyDisasters weatherDisasters disasterId tbl =
     (let key = cacheKey ''realtime_disasters:'' disasterId in
      case cache_get (select_ok io) (delete_ok io) (clock io) key tbl of
        (Some cached, tbl') \<Rightarrow> (cached, tbl')
      | (None, tbl') \<Rightarrow>
          let disasters = source_or_empty blueskyDisasters @ source_or_empty emergencyDisasters
                            @ source_or_empty weatherDisasters;
              filteredDisasters =
                (if falsy disasterId then disasters
                 else filter (\<lambda>d. d_id d = the disasterId) disasters)
          in store_and_return io key filteredDisasters 120 tbl')"

text \<open>\<^verbatim>\<open>getRealTimeSocialMedia(disasterId)\<close>: Bluesky search and official updates.\<close>

definition getRealTimeSocialMedia ::
  "cache_io \<Rightarrow> error + SocialMediaPost list \<Rightarrow> error + SocialMediaPost list
     \<Rightarrow> string option \<Rightarrow> SocialMediaPost list cache_table
     \<Rightarrow> SocialMediaPost list \<times> SocialMediaPost list cache_table" where
  "getRealTimeSocialMedia io blueskyPosts officialPosts disasterId tbl =
     (let key = cacheKey ''realtime_social:'' disasterId in
      case cache_get (select_ok io) (delete_ok io) (clock io) key tbl of
        (Some cached, tbl') \<Rightarrow> (cached, tbl')
      | (None, tbl') \<Rightarrow>
          let posts = source_or_empty blueskyPosts @ source_or_empty officialPosts;
              filteredPosts =
                (if falsy disasterId then posts
                 else filter (\<lambda>p. p_disaster_id p = disasterId) posts)
          in store_and_return io key filteredPosts 60 tbl')"

text \<open>
  A feature of the shelter service's answer: the attributes read by the code and the
  geometry \<open>(x, y)\<close>. \<open>OBJECTID\<close> is given as the template literal prints it.
\<close>

record feature =
  OBJECTID :: string
  ShelterName :: "string option"
  Address :: "string option"
  geometry :: "(number \<times> number) option"
  Capacity :: "number option"

definition redCrossResource :: "string option \<Rightarrow> int \<Rightarrow> feature \<Rightarrow> Resource" where
  "redCrossResource disasterId t f =
     \<lparr>r_id = ''redcross-'' @ OBJECTID f,
      r_disaster_id = or_else disasterId ''general'',
      r_name = or_else (ShelterName f) ''Red Cross Shelter'',
      r_location_name = or_else (Address f) ''Unknown Location'',
      r_location = Some (case geometry f of None \<Rightarrow> (0, 0) | Some (x, y) \<Rightarrow> (y, x)),
      r_type = ''shelter'',
      r_capacity = (case Capacity f of None \<Rightarrow> None
                    | Some c \<Rightarrow> if c = 0 then None else Some c),
      r_available = True,
      r_created_at = t\<rparr>"

text \<open>
  \<^verbatim>\<open>getRealTimeResources(disasterId)\<close>. The shelter request throws (\<open>Inl\<close>), or answers
  without a feature list (\<open>Inr None\<close>), or with one. Nothing is filtered: every resource
  is labelled with the requested id.
\<close>

definition getRealTimeResources ::
  "cache_io \<Rightarrow> error + feature list option \<Rightarrow> string option \<Rightarrow> Resource list cache_table
     \<Rightarrow> Resource list \<times> Resource list cache_table" where
  "getRealTimeResources io shelters disasterId tbl =
     (let key = cacheKey ''realtime_resources:'' disasterId in
      case cache_get (select_ok io) (delete_ok io) (clock io) key tbl of
        (Some cached, tbl') \<Rightarrow> (cached, tbl')
      | (None, tbl') \<Rightarrow>
          let resources =
                (case shelters of
                   Inl _ \<Rightarrow> []
                 | Inr None \<Rightarrow> []
                 | Inr (Some features) \<Rightarrow> map (redCrossResource disasterId (clock io)) features)
          in store_and_return io key resources 900 tbl')"

text \<open>
  \<^verbatim>\<open>Promise.allSettled\<close> turns the outcome of each promise into a settled result, and
  never rejects.
\<close>

datatype 'a settled = Fulfilled 'a | Rejected error

definition allSettled :: "error + 'a \<Rightarrow> 'a settled" where
  "allSettled r = (case r of Inl e \<Rightarrow> Rejected e | Inr v \<Rightarrow> Fulfilled v)"

text \<open>\<^verbatim>\<open>x.status === 'fulfilled' ? x.value : []\<close>\<close>

definition value_or_empty :: "'a list settled \<Rightarrow> 'a list" where
  "value_or_empty s = (case s of Fulfilled v \<Rightarrow> v | Rejected _ \<Rightarrow> [])"

record ('w, 'a, 'r) RealTimeData =
  disasters :: "Disaster list"
  socialMedia :: "SocialMediaPost list"
  weather :: "'w list"
  emergencyAlerts :: "'a list"
  resources :: "Resource list"
  reports :: "'r list"

text \<open>
  \<^verbatim>\<open>getRealTimeDisasterData(disasterId)\<close>. The six per-source methods are parameters:
  each maps the id to the outcome of its promise. The result is \<open>Inr\<close> when the method
  returns and would be \<open>Inl\<close> if it threw.
\<close>

definition getRealTimeDisasterData ::
  "(string option \<Rightarrow> error + Disaster list) \<Rightarrow> (string option \<Rightarrow> error + SocialMediaPost list)
     \<Rightarrow> (string option \<Rightarrow> error + 'w list) \<Rightarrow> (string option \<Rightarrow> error + 'a list)
     \<Rightarrow> (string option \<Rightarrow> error + Resource list) \<Rightarrow> (string option \<Rightarrow> error + 'r list)
     \<Rightarrow> string option \<Rightarrow> error + ('w, 'a, 'r) RealTimeData" where
  "getRealTimeDisasterData getDisasters getSocialMedia getWeather getEmergencyAlerts
       getResources getReports disasterId =
     (let disasters' = allSettled (getDisasters disasterId);
          socialMedia' = allSettled (getSocialMedia disasterId);
          weather' = allSettled (getWeather disasterId);
          emergencyAlerts' = allSettled (getEmergencyAlerts disasterId);
          resources' = allSettled (getResources disasterId);
          reports' = allSettled (getReports disasterId)
      in Inr \<lparr>disasters = value_or_empty disasters',
              socialMedia = value_or_empty socialMedia',
              weather = value_or_empty weather',
              emergencyAlerts = value_or_empty emergencyAlerts',
              resources = value_or_empty resources',
              reports = value_or_empty reports'\<rparr>)"

text \<open>
  The invariant of the cache rows of one source: a list stored under \<open>prefix @ k\<close>, for
  a key part \<open>k\<close> other than \<open>all\<close>, holds only entries correlated with \<open>k\<close>.
\<close>

definition cache_correlated ::
  "string \<Rightarrow> ('a \<Rightarrow> string \<Rightarrow> bool) \<Rightarrow> 'a list cache_table \<Rightarrow> bool" where
  "cache_correlated prefix corr tbl =
     (\<forall>k e. tbl (prefix @ k) = Some e \<and> k \<noteq> ''all'' \<longrightarrow> (\<forall>x \<in> set (entry_value e). corr x k))"

section \<open>Resource routes (routes/resources.ts)\<close>

text \<open>The fixture store's \<open>getResources(page, limit, disaster_id)\<close>.\<close>

definition mock_getResources ::
  "int option \<Rightarrow> int option \<Rightarrow> string option \<Rightarrow> Resource list \<Rightarrow> Resource list \<times> nat" where
  "mock_getResources page limit disaster_id mockResources =
     (let filteredResources =
            (if falsy disaster_id then mockResources
             else filter (\<lambda>r. r_disaster_id r = the disaster_id) mockResources);
          start = js_mul (js_sub page (Some 1)) limit;
          end' = js_add start limit
      in (js_slice filteredResources start end', length filteredResources))"

text \<open>
  The query string of \<open>GET /api/resources\<close>, with \<open>page\<close> and \<open>limit\<close> as
  \<^verbatim>\<open>parseInt\<close> reads them after their defaults (1 and 20).
\<close>

record resources_request =
  rr_disaster_id :: "string option"
  rr_type :: "string option"
  rr_available :: "string option"
  rr_lat :: "string option"
  rr_lng :: "string option"
  rr_radius :: "string option"
  rr_page :: "int option"
  rr_limit :: "int option"

text \<open>
  The filters the route puts on the query: equalities on three columns, and the
  \<open>st_dwithin\<close> filter on \<open>location\<close> with the value \<^verbatim>\<open>POINT(lng lat),radius\<close>.
\<close>

record resource_query =
  rq_disaster_id :: "string option"
  rq_type :: "string option"
  rq_available :: "bool option"
  rq_st_dwithin :: "string option"

definition build_query :: "resources_request \<Rightarrow> resource_query" where
  "build_query req =
     \<lparr>rq_disaster_id = (if falsy (rr_disaster_id req) then None else rr_disaster_id req),
      rq_type = (if falsy (rr_type req) then None else rr_type req),
      rq_available = map_option (\<lambda>a. a = ''true'') (rr_available req),
      rq_st_dwithin =
        (if \<not> falsy (rr_lat req) \<and> \<not> falsy (rr_lng req)
         then Some (''POINT('' @ the (rr_lng req) @ '' '' @ the (rr_lat req) @ ''),''
                     @ (case rr_radius req of None \<Rightarrow> ''10000'' | Some r \<Rightarrow> r))
         else None)\<rparr>"

text \<open>
  The hosted database is outside the repository: what it replies to a query is an
  input. \<open>count_reply\<close> is its reply to the filtered query awaited as it is (outcome
  and count), \<open>page_reply\<close> its reply to the same query ordered by \<open>created_at\<close>,
  newest first, with the range from \<open>offset\<close> to \<open>offset + limit - 1\<close> (outcome and
  rows). Both are functions of the query the route built.
\<close>

record resources_db =
  count_reply :: "resource_query \<Rightarrow> db_outcome \<times> nat option"
  page_reply :: "resource_query \<Rightarrow> int option \<Rightarrow> int option \<Rightarrow> db_outcome \<times> Resource list option"

text \<open>
  \<^verbatim>\<open>router.get('/')\<close>. The count query's error object is ignored, the page query's is
  thrown; an exception of either ends in the inner \<open>catch\<close>, which answers from the
  fixture store.
\<close>

definition get_resources ::
  "resources_db \<Rightarrow> resources_request \<Rightarrow> Resource list \<Rightarrow> Resource list response" where
  "get_resources db req mockResources =
     (let offset = js_mul (js_sub (rr_page req) (Some 1)) (rr_limit req);
          query = build_query req;
          (count_out, count) = count_reply db query;
          (page_out, resources') =
             page_reply db query offset (js_sub (js_add offset (rr_limit req)) (Some 1));
          (rows, n) =
             (if count_out \<noteq> DbThrow \<and> page_out = DbOk
              then (case resources' of None \<Rightarrow> [] | Some r \<Rightarrow> r,
                    case count of None \<Rightarrow> 0 | Some c \<Rightarrow> c)
              else mock_getResources (rr_page req) (rr_limit req) (rr_disaster_id req)
                     mockResources)
      in \<lparr>status = 200, success = True, data = Some rows, error_text = None, message = None,
          pagination = Some \<lparr>pg_page = rr_page req, pg_limit = rr_limit req, pg_total = n,
                              pg_totalPages = ceil_div n (rr_limit req)\<rparr>\<rparr>)"

section \<open>Inputs of the examples\<close>

text \<open>
  Concrete inputs for the evaluations among the properties below. They are
  abbreviations: a statement that names one is a statement about the value itself.
\<close>

text \<open>A disaster of the fixture data.\<close>

abbreviation disaster_1 :: "Disaster" where
  "disaster_1 \<equiv>
     \<lparr>d_id = ''disaster-1'', d_title = ''NYC Flood Emergency'',
     d_location_name = ''Manhattan, NYC'', d_location = None,
     d_description = ''Heavy flooding in Manhattan'', d_tags = [''flood''],
     d_owner_id = ''netrunnerX'', d_created_at = 1, d_updated_at = 2,
     d_audit_trail = []\<rparr>"

text \<open>A disaster as the Bluesky source builds one.\<close>

abbreviation bluesky_disaster :: "Disaster" where
  "bluesky_disaster \<equiv>
     \<lparr>d_id = ''bluesky-1'', d_title = ''Flood Emergency'',
     d_location_name = ''Unknown Location'', d_location = None,
     d_description = ''Heavy flooding in Manhattan'', d_tags = [''flood''],
     d_owner_id = ''netrunnerX'', d_created_at = 1, d_updated_at = 2,
     d_audit_trail = []\<rparr>"

text \<open>A disaster as the weather source builds one.\<close>

abbreviation weather_disaster :: "Disaster" where
  "weather_disaster \<equiv>
     \<lparr>d_id = ''weather-9'', d_title = ''Flood Warning Alert'',
     d_location_name = ''Manhattan, NYC'', d_location = None,
     d_description = ''Heavy flooding in Manhattan'', d_tags = [''flood''],
     d_owner_id = ''weather_service'', d_created_at = 1, d_updated_at = 2,
     d_audit_trail = []\<rparr>"

text \<open>Nothing stored, nothing emitted.\<close>

abbreviation empty_world :: "world" where
  "empty_world \<equiv>
     \<lparr>db_disasters = [], mockDisasters = [], emitted = []\<rparr>"

text \<open>The table and the fixture store both hold \<open>disaster-1\<close>.\<close>

abbreviation seeded_world :: "world" where
  "seeded_world \<equiv>
     \<lparr>db_disasters = [disaster_1], mockDisasters = [disaster_1], emitted = []\<rparr>"

text \<open>Everything answers; the model finds the location \<open>Main St\<close>.\<close>

abbreviation env_db_ok :: "env" where
  "env_db_ok \<equiv>
     \<lparr>cached_extraction = None, gemini = Inr ''Main St'', extraction_set_ok = True,
     geocode = (\<lambda>n. None), db_fetch = DbOk, db_write = DbOk, db_new_id = ''id-1'',
     db_now = 5, server_now = 7\<rparr>"

text \<open>The database client throws; the model finds no location.\<close>

abbreviation env_db_down :: "env" where
  "env_db_down \<equiv>
     \<lparr>cached_extraction = None, gemini = Inr ''null'', extraction_set_ok = True,
     geocode = (\<lambda>n. None), db_fetch = DbThrow, db_write = DbThrow,
     db_new_id = ''id-1'', db_now = 5, server_now = 7\<rparr>"

text \<open>The database client throws, cache writes included; the model finds \<open>Main St\<close>.\<close>

abbreviation env_db_down_cache_write_fails :: "env" where
  "env_db_down_cache_write_fails \<equiv>
     \<lparr>cached_extraction = None, gemini = Inr ''Main St'', extraction_set_ok = False,
     geocode = (\<lambda>n. None), db_fetch = DbThrow, db_write = DbThrow,
     db_new_id = ''id-1'', db_now = 5, server_now = 7\<rparr>"

text \<open>The create request of the end-to-end scenario: no location name.\<close>

abbreviation flood_request :: "CreateDisasterRequest" where
  "flood_request \<equiv>
     \<lparr>c_title = Some ''Test Flood'', c_location_name = None,
     c_description = Some ''River overflow near Main St'', c_tags = None\<rparr>"

text \<open>The same request with an empty title.\<close>

abbreviation untitled_request :: "CreateDisasterRequest" where
  "untitled_request \<equiv>
     \<lparr>c_title = Some [], c_location_name = None,
     c_description = Some ''River overflow near Main St'', c_tags = None\<rparr>"

text \<open>An update of the title.\<close>

abbreviation title_update :: "UpdateDisasterRequest" where
  "title_update \<equiv>
     \<lparr>u_title = Some ''Flood'', u_location_name = None, u_description = None,
     u_tags = None\<rparr>"

text \<open>Both list queries throw.\<close>

abbreviation list_db_down :: "list_env" where
  "list_db_down \<equiv>
     \<lparr>count_outcome = DbThrow, count_rows = None, page_outcome = DbThrow,
     page_rows = None\<rparr>"

text \<open>The cache answers every call; the time is 1000.\<close>

abbreviation io_ok :: "cache_io" where
  "io_ok \<equiv>
     \<lparr>select_ok = True, delete_ok = True, upsert_ok = True, clock = 1000\<rparr>"

text \<open>A shelter of the shelter service.\<close>

abbreviation shelter_feature :: "feature" where
  "shelter_feature \<equiv>
     \<lparr>OBJECTID = ''42'', ShelterName = Some ''Shelter A'', Address = None,
     geometry = Some (-74, 40), Capacity = Some 120\<rparr>"

text \<open>A resource at the point (1, 1).\<close>

abbreviation near_resource :: "Resource" where
  "near_resource \<equiv>
     \<lparr>r_id = ''r1'', r_disaster_id = ''disaster-1'', r_name = ''Shelter'',
     r_location_name = ''Main St'', r_location = Some (1, 1), r_type = ''shelter'',
     r_capacity = None, r_available = True, r_created_at = 10\<rparr>"

text \<open>A resource at the point (2, 2).\<close>

abbreviation far_resource :: "Resource" where
  "far_resource \<equiv>
     \<lparr>r_id = ''r2'', r_disaster_id = ''disaster-1'', r_name = ''Hospital'',
     r_location_name = ''Far Rd'', r_location = Some (2, 2), r_type = ''hospital'',
     r_capacity = None, r_available = True, r_created_at = 20\<rparr>"

text \<open>The list request of the end-to-end scenario.\<close>

abbreviation nearby_request :: "resources_request" where
  "nearby_request \<equiv>
     \<lparr>rr_disaster_id = None, rr_type = None, rr_available = None,
     rr_lat = Some ''40.7'', rr_lng = Some ''-74.0'', rr_radius = Some ''5000'',
     rr_page = Some 1, rr_limit = Some 20\<rparr>"

section \<open>Properties of the cache\<close>

lemma cache_set_success:
  assumes "cache_set ok t0 k v ttl tbl = (Inr (), tbl')"
  shows "tbl' = tbl(k \<mapsto> \<lparr>entry_value = v, expires_at = t0 + ttl * 1000\<rparr>)"
  using assms by (auto simp: cache_set_def Let_def split: if_splits)

text \<open>
  C3, as stated, at the expiry instant itself: a value stored at time 0 with a ttl of 60
  seconds is still returned at time 60000, where the claim says \<open>null\<close>.
\<close>

theorem cache_get_at_expiry_counterexample:
  "fst (cache_get True True 60000 ''k''
         (snd (cache_set True 0 ''k'' (7::nat) 60 Map.empty))) = Some 7"
  by (simp add: cache_get_def cache_set_def max_time_def)

text \<open>
  C3 (amended): after \<open>set(k, v, ttl)\<close> succeeds at time \<open>t0\<close>, a \<open>get(k)\<close> whose
  lookup the database answers returns \<open>v\<close> and leaves the table alone at every time up to
  and including the expiry \<open>t0 + ttl * 1000\<close>; at every later time it returns \<open>null\<close>,
  and the row is gone when the delete went through.
\<close>

theorem cache_get_after_set:
  assumes "cache_set ok t0 k v ttl tbl = (Inr (), tbl')"
  shows "cache_get True del_ok now k tbl' =
           (if now \<le> t0 + ttl * 1000 then (Some v, tbl')
            else (None, if del_ok then tbl'(k := None) else tbl'))"
  using cache_set_success[OF assms]
  by (auto simp: cache_get_def cache_delete_def db_delete_where_def fun_eq_iff
           split: option.splits)

theorem cache_get_after_set_witness:
  "cache_get True True 60000 ''k'' (snd (cache_set True 0 ''k'' (7::nat) 60 Map.empty))
     = (Some 7, snd (cache_set True 0 ''k'' (7::nat) 60 Map.empty))
   \<and> fst (cache_get True True 60001 ''k''
         (snd (cache_set True 0 ''k'' (7::nat) 60 Map.empty))) = None"
proof -
  have s: "cache_set True 0 ''k'' (7::nat) 60 Map.empty
             = (Inr (), snd (cache_set True 0 ''k'' (7::nat) 60 Map.empty))"
    by (simp add: cache_set_def max_time_def)
  show ?thesis
    using cache_get_after_set[OF s, of True 60000]
          cache_get_after_set[OF s, of True 60001]
    by simp
qed

text \<open>
  C4: \<open>clearExpired\<close> at time \<open>now\<close> never removes a row whose expiry is at or after
  \<open>now\<close> and never adds one; when the database executes the delete, every row whose
  expiry is before \<open>now\<close> is gone, so the rows removed are exactly those.
\<close>

theorem clearExpired_exact:
  assumes "cache_clearExpired ok now tbl = (r, tbl')"
  shows "(\<forall>k e. tbl k = Some e \<and> now \<le> expires_at e \<longrightarrow> tbl' k = Some e)
       \<and> (\<forall>k. tbl k = None \<longrightarrow> tbl' k = None)
       \<and> (ok \<longrightarrow> r = Inr ()
                 \<and> (\<forall>k e. tbl k = Some e \<and> expires_at e < now \<longrightarrow> tbl' k = None)
                 \<and> dom tbl - dom tbl' = {k \<in> dom tbl. expires_at (the (tbl k)) < now})
       \<and> (\<not> ok \<longrightarrow> r = Inl DbError \<and> tbl' = tbl)"
  using assms
  by (auto simp: cache_clearExpired_def db_delete_where_def split: if_splits option.splits)

theorem clearExpired_exact_witness:
  "snd (cache_clearExpired True 100
          [''old'' \<mapsto> \<lparr>entry_value = (1::nat), expires_at = 99\<rparr>,
           ''edge'' \<mapsto> \<lparr>entry_value = 2, expires_at = 100\<rparr>]) ''old'' = None
   \<and> snd (cache_clearExpired True 100
          [''old'' \<mapsto> \<lparr>entry_value = (1::nat), expires_at = 99\<rparr>,
           ''edge'' \<mapsto> \<lparr>entry_value = 2, expires_at = 100\<rparr>]) ''edge''
       = Some \<lparr>entry_value = 2, expires_at = 100\<rparr>"
proof -
  let ?tbl = "[''old'' \<mapsto> \<lparr>entry_value = (1::nat), expires_at = 99\<rparr>,
               ''edge'' \<mapsto> \<lparr>entry_value = 2, expires_at = 100\<rparr>]"
  let ?old = "\<lparr>entry_value = (1::nat), expires_at = 99\<rparr>"
  let ?edge = "\<lparr>entry_value = (2::nat), expires_at = 100\<rparr>"
  have c: "cache_clearExpired True 100 ?tbl
             = (fst (cache_clearExpired True 100 ?tbl), snd (cache_clearExpired True 100 ?tbl))"
    by simp
  note h = clearExpired_exact[OF c]
  from h have keep: "?tbl ''edge'' = Some ?edge \<and> 100 \<le> expires_at ?edge
      \<longrightarrow> snd (cache_clearExpired True 100 ?tbl) ''edge'' = Some ?edge"
    by blast
  from h have drop: "?tbl ''old'' = Some ?old \<and> expires_at ?old < 100
      \<longrightarrow> snd (cache_clearExpired True 100 ?tbl) ''old'' = None"
    by blast
  from keep drop show ?thesis by simp
qed

section \<open>Properties of the string functions\<close>

lemma startsWith_iff: "startsWith s sub \<longleftrightarrow> (\<exists>q. s = sub @ q)"
  unfolding startsWith_def
  by (metis append_eq_conv_conj append_take_drop_id)

text \<open>\<open>str_includes\<close> is the substring relation.\<close>

lemma str_includes_iff: "str_includes s sub \<longleftrightarrow> (\<exists>p q. s = p @ sub @ q)"
proof (induction s)
  case Nil
  then show ?case by auto
next
  case (Cons c cs)
  show ?case
  proof
    assume "str_includes (c # cs) sub"
    then consider "startsWith (c # cs) sub" | "str_includes cs sub" by auto
    then show "\<exists>p q. c # cs = p @ sub @ q"
    proof cases
      case 1
      then obtain q where "c # cs = [] @ sub @ q" by (auto simp: startsWith_iff)
      then show ?thesis by blast
    next
      case 2
      then obtain p q where "cs = p @ sub @ q" using Cons.IH by blast
      then have "c # cs = (c # p) @ sub @ q" by simp
      then show ?thesis by blast
    qed
  next
    assume "\<exists>p q. c # cs = p @ sub @ q"
    then obtain p q where e: "c # cs = p @ sub @ q" by blast
    show "str_includes (c # cs) sub"
    proof (cases p)
      case Nil
      with e have "startsWith (c # cs) sub" by (auto simp: startsWith_iff)
      then show ?thesis by simp
    next
      case (Cons a p')
      with e have "cs = p' @ sub @ q" by simp
      then show ?thesis using Cons.IH by auto
    qed
  qed
qed

text \<open>
  \<open>trim\<close> cuts a string into leading white space, the result and trailing white space,
  and the result neither starts nor ends with white space.
\<close>

lemma trim_spec:
  "\<exists>p q. s = p @ trim s @ q \<and> (\<forall>c \<in> set p. is_space c) \<and> (\<forall>c \<in> set q. is_space c)
         \<and> (trim s \<noteq> [] \<longrightarrow> \<not> is_space (hd (trim s)) \<and> \<not> is_space (last (trim s)))"
proof -
  let ?m = "dropWhile is_space s"
  let ?p = "takeWhile is_space s"
  let ?q = "rev (takeWhile is_space (rev ?m))"
  have t: "trim s = rev (dropWhile is_space (rev ?m))" by (simp add: trim_def)
  have m: "?m = trim s @ ?q"
    unfolding t by (metis rev_append rev_rev_ident takeWhile_dropWhile_id)
  have s: "s = ?p @ trim s @ ?q" using m by (metis takeWhile_dropWhile_id)
  have p: "\<forall>c \<in> set ?p. is_space c" by (auto dest: set_takeWhileD)
  have q: "\<forall>c \<in> set ?q. is_space c" by (auto dest: set_takeWhileD)
  have e: "trim s \<noteq> [] \<longrightarrow> \<not> is_space (hd (trim s)) \<and> \<not> is_space (last (trim s))"
  proof
    assume ne: "trim s \<noteq> []"
    have mne: "?m \<noteq> []"
    proof
      assume "?m = []"
      with m have "trim s = []" by (metis append_is_Nil_conv)
      with ne show False by simp
    qed
    have "hd (trim s) = hd ?m" using m ne by (metis hd_append2)
    moreover have "\<not> is_space (hd ?m)" using mne by (rule hd_dropWhile)
    moreover have "last (trim s) = hd (dropWhile is_space (rev ?m))"
      using ne by (simp add: t last_rev)
    moreover have "dropWhile is_space (rev ?m) \<noteq> []"
      using ne t by (metis rev_is_Nil_conv)
    then have "\<not> is_space (hd (dropWhile is_space (rev ?m)))"
      by (rule hd_dropWhile)
    ultimately show "\<not> is_space (hd (trim s)) \<and> \<not> is_space (last (trim s))"
      by (simp del: dropWhile_eq_Nil_conv)
  qed
  from s p q e show ?thesis by blast
qed

text \<open>The no-break space is white space; the accented capitals have a lower case.\<close>

lemma trim_no_break_space: "trim (CHR 0xA0 # ''high'' @ [CHR 0xA0, CHR 0x0A]) = ''high''"
  by code_simp

lemma toLowerCase_latin1:
  "toLowerCase [CHR 0xC9, CHR ''T'', CHR 0xD7, CHR 0xDF] = [CHR 0xE9, CHR ''t'', CHR 0xD7, CHR 0xDF]"
  by code_simp

section \<open>Properties of the Bluesky priority classifier\<close>

text \<open>
  C10: \<open>classifyPriority\<close> is a total function into the four priorities. With \<open>l\<close> the
  lowercased content and "contains" meaning "has as a substring": it is urgent whenever
  \<open>l\<close> contains urgent, sos or emergency, whatever else \<open>l\<close> contains; high when \<open>l\<close>
  contains critical, severe or danger and no urgent keyword; medium when \<open>l\<close> contains
  warning, alert or caution and no urgent or high keyword; and low, not medium, when
  \<open>l\<close> contains none of the nine keywords.
\<close>

theorem classifyPriority_spec:
  fixes content :: string
  defines "l \<equiv> toLowerCase content"
  defines "has \<equiv> (\<lambda>kw. \<exists>p q. l = p @ kw @ q)"
  defines "urgent_kw \<equiv> has ''urgent'' \<or> has ''sos'' \<or> has ''emergency''"
  defines "high_kw \<equiv> has ''critical'' \<or> has ''severe'' \<or> has ''danger''"
  defines "medium_kw \<equiv> has ''warning'' \<or> has ''alert'' \<or> has ''caution''"
  shows "classifyPriority content \<in> {Low, Medium, High, Urgent}
       \<and> (urgent_kw \<longrightarrow> classifyPriority content = Urgent)
       \<and> (\<not> urgent_kw \<and> high_kw \<longrightarrow> classifyPriority content = High)
       \<and> (\<not> urgent_kw \<and> \<not> high_kw \<and> medium_kw \<longrightarrow> classifyPriority content = Medium)
       \<and> (\<not> urgent_kw \<and> \<not> high_kw \<and> \<not> medium_kw \<longrightarrow> classifyPriority content = Low)"
proof -
  have "classifyPriority content \<in> {Low, Medium, High, Urgent}"
    by (cases "classifyPriority content") simp_all
  moreover have "classifyPriority content =
      (if urgent_kw then Urgent else if high_kw then High
       else if medium_kw then Medium else Low)"
    unfolding classifyPriority_def Let_def str_includes_iff
      urgent_kw_def high_kw_def medium_kw_def has_def l_def
    by (rule refl)
  ultimately show ?thesis by simp
qed

theorem classifyPriority_spec_witness:
  "classifyPriority ''Severe flooding, SOS!'' = Urgent
   \<and> classifyPriority ''DANGER: flood warning'' = High
   \<and> classifyPriority ''Weather Alert'' = Medium
   \<and> classifyPriority ''Road reopened'' = Low"
proof -
  note sp = classifyPriority_spec[unfolded str_includes_iff[symmetric]]
  have u: "str_includes (toLowerCase ''Severe flooding, SOS!'') ''sos''"
    by code_simp
  have h: "str_includes (toLowerCase ''DANGER: flood warning'') ''danger''"
      "\<not> str_includes (toLowerCase ''DANGER: flood warning'') ''urgent''"
      "\<not> str_includes (toLowerCase ''DANGER: flood warning'') ''sos''"
      "\<not> str_includes (toLowerCase ''DANGER: flood warning'') ''emergency''"
    by code_simp+
  have m: "str_includes (toLowerCase ''Weather Alert'') ''alert''"
      "\<not> str_includes (toLowerCase ''Weather Alert'') ''urgent''"
      "\<not> str_includes (toLowerCase ''Weather Alert'') ''sos''"
      "\<not> str_includes (toLowerCase ''Weather Alert'') ''emergency''"
      "\<not> str_includes (toLowerCase ''Weather Alert'') ''critical''"
      "\<not> str_includes (toLowerCase ''Weather Alert'') ''severe''"
      "\<not> str_includes (toLowerCase ''Weather Alert'') ''danger''"
    by code_simp+
  have n: "\<not> str_includes (toLowerCase ''Road reopened'') ''urgent''"
      "\<not> str_includes (toLowerCase ''Road reopened'') ''sos''"
      "\<not> str_includes (toLowerCase ''Road reopened'') ''emergency''"
      "\<not> str_includes (toLowerCase ''Road reopened'') ''critical''"
      "\<not> str_includes (toLowerCase ''Road reopened'') ''severe''"
      "\<not> str_includes (toLowerCase ''Road reopened'') ''danger''"
      "\<not> str_includes (toLowerCase ''Road reopened'') ''warning''"
      "\<not> str_includes (toLowerCase ''Road reopened'') ''alert''"
      "\<not> str_includes (toLowerCase ''Road reopened'') ''caution''"
    by code_simp+
  have "classifyPriority ''Severe flooding, SOS!'' = Urgent"
    using sp[of "''Severe flooding, SOS!''"] u by simp
  moreover have "classifyPriority ''DANGER: flood warning'' = High"
    using sp[of "''DANGER: flood warning''"] h by simp
  moreover have "classifyPriority ''Weather Alert'' = Medium"
    using sp[of "''Weather Alert''"] m by simp
  moreover have "classifyPriority ''Road reopened'' = Low"
    using sp[of "''Road reopened''"] n by simp
  ultimately show ?thesis by simp
qed

section \<open>Properties of the Gemini service\<close>

text \<open>
  C7, as stated, on a response that is not JSON: the answer "This looks fake" has no
  brace, is scored by keywords and comes back as not authentic.
\<close>

theorem verifyImage_unparsed_counterexample:
  "verifyImage (\<lambda>s. None :: unit option) None (Inr True) (Inr ''This looks fake'') True
     = Fields \<lparr>is_authentic = False, confidence = 40, analysis = ''This looks fake'',
               detected_manipulations = []\<rparr>"
  by code_simp

text \<open>
  C7 (amended), on a cache miss. \<open>verifyImage\<close> returns the fixed result of its error
  handler (authentic, confidence 30) whenever the download throws or is not ok, the
  model call throws, or storing the result fails; when the response has a brace span
  that \<open>JSON.parse\<close> rejects it returns authentic with confidence 50 and the response
  text as analysis. \<open>classifySocialMediaPriority\<close> returns medium whenever the model
  call throws, the trimmed and lowercased response is none of low, medium, high and
  urgent, or storing the result fails; and it never returns anything but those four.
\<close>

theorem gemini_fallbacks:
  "(download = Inl e \<or> download = Inr False \<or> vision = Inl e \<or> \<not> set_ok \<longrightarrow>
      verifyImage parse None download vision set_ok = Fields verifyImage_error_result)
   \<and> (json_match text = Some m \<and> parse m = None \<longrightarrow>
      verifyImage parse None (Inr True) (Inr text) True
        = Fields \<lparr>is_authentic = True, confidence = 50, analysis = text,
                  detected_manipulations = []\<rparr>)
   \<and> (upstream = Inl e \<or> (\<exists>t. upstream = Inr t \<and> toLowerCase (trim t) \<notin> set validPriorities)
        \<or> \<not> set_ok \<longrightarrow>
      classifySocialMediaPriority None upstream set_ok = ''medium'')
   \<and> classifySocialMediaPriority None upstream set_ok \<in> set validPriorities"
  by (auto simp: verifyImage_def parse_analysis_def classifySocialMediaPriority_def Let_def
                 validPriorities_def
           split: sum.splits option.splits)

theorem gemini_fallbacks_witness:
  "verifyImage (\<lambda>s. None :: unit option) None (Inl UpstreamError) (Inr ''x'') True
     = Fields verifyImage_error_result
   \<and> verifyImage (\<lambda>s. None :: unit option) None (Inr True) (Inr ''{fake}'') True
     = Fields \<lparr>is_authentic = True, confidence = 50, analysis = ''{fake}'',
               detected_manipulations = []\<rparr>
   \<and> classifySocialMediaPriority None (Inr '' Critical '') True = ''medium''
   \<and> classifySocialMediaPriority None (Inl UpstreamError) True = ''medium''"
proof -
  have m: "json_match ''{fake}'' = Some ''{fake}''"
    by code_simp
  have t: "toLowerCase (trim '' Critical '') \<notin> set validPriorities"
    by code_simp
  note g = gemini_fallbacks[where parse = "\<lambda>s. None :: unit option" and e = UpstreamError]
  have "verifyImage (\<lambda>s. None :: unit option) None (Inl UpstreamError) (Inr ''x'') True
          = Fields verifyImage_error_result"
    using g[of "Inl UpstreamError" "Inr ''x''" True, THEN conjunct1] by simp
  moreover have "verifyImage (\<lambda>s. None :: unit option) None (Inr True) (Inr ''{fake}'') True
      = Fields \<lparr>is_authentic = True, confidence = 50, analysis = ''{fake}'',
                detected_manipulations = []\<rparr>"
    using g[of _ _ _ "''{fake}''" "''{fake}''", THEN conjunct2, THEN conjunct1] m by simp
  moreover have "classifySocialMediaPriority None (Inr '' Critical '') True = ''medium''"
    using g[of _ _ True _ _ "Inr '' Critical ''", THEN conjunct2, THEN conjunct2, THEN conjunct1] t
    by simp
  moreover have "classifySocialMediaPriority None (Inl UpstreamError) True = ''medium''"
    using g[of _ _ True _ _ "Inl UpstreamError", THEN conjunct2, THEN conjunct2, THEN conjunct1]
    by simp
  ultimately show ?thesis by simp
qed

text \<open>
  White space around the model's answer does not count: \<open>HIGH\<close> followed by a no-break
  space is the priority high.
\<close>

lemma classifySocialMediaPriority_no_break_space:
  "classifySocialMediaPriority None (Inr (''HIGH'' @ [CHR 0xA0])) True = ''high''"
  by code_simp

section \<open>Properties of the disaster routes\<close>

lemma or_else_falsy: "falsy s \<Longrightarrow> or_else s dflt = dflt"
  by (auto simp: falsy_def or_else_def split: option.splits)

lemma or_else_nonempty: "dflt \<noteq> [] \<Longrightarrow> or_else s dflt \<noteq> []"
  by (auto simp: or_else_def split: option.splits)

text \<open>
  C6: a \<open>POST /api/disasters\<close> whose title or description is missing or empty is
  answered with status 400 and the body \<open>{success: false, error: 'Title and description
  are required'}\<close>; the database table, the fixture store and the event log are as
  before.
\<close>

theorem post_disaster_validation:
  assumes "falsy (c_title req) \<or> falsy (c_description req)"
  shows "post_disaster e header req w =
           (\<lparr>status = 400, success = False, data = None,
             error_text = Some ''Title and description are required'',
             message = None, pagination = None\<rparr>, w)"
  using assms by (auto simp: post_disaster_def reply_def Let_def)

theorem post_disaster_validation_witness:
  "status (fst (post_disaster env_db_ok None untitled_request seeded_world)) = 400
   \<and> snd (post_disaster env_db_ok None untitled_request seeded_world) = seeded_world"
proof -
  have f: "falsy (c_title untitled_request) \<or> falsy (c_description untitled_request)"
    by (simp add: falsy_def)
  show ?thesis
    by (simp only: post_disaster_validation[OF f] fst_conv snd_conv response.select_convs
          simp_thms)
qed

text \<open>
  C8: when a \<open>POST /api/disasters\<close> with non-empty title and description and without a
  location name is answered with 201, the data is the created record (now in the table
  or in the fixture store) and its location name is not empty: it is the name that
  \<open>extractLocation\<close> returned, or \<open>Unknown Location\<close> when \<open>extractLocation\<close> returned
  \<open>null\<close> (or a cached result with an empty name). When \<open>extractLocation\<close> throws, the
  answer is not 201.
\<close>

theorem post_disaster_location_name:
  assumes valid: "\<not> falsy (c_title req)" "\<not> falsy (c_description req)"
      and noloc: "falsy (c_location_name req)"
      and run: "post_disaster e header req w = (resp, w')"
      and created: "status resp = 201"
  shows "\<exists>d. data resp = Some d \<and> success resp \<and> d_location_name d \<noteq> []
           \<and> (d \<in> set (db_disasters w') \<or> d \<in> set (mockDisasters w'))
           \<and> (case extractLocation (cached_extraction e) (gemini e) (extraction_set_ok e) of
                 Inr (Some g) \<Rightarrow>
                   d_location_name d = or_else (Some (gr_location_name g)) ''Unknown Location''
               | Inr None \<Rightarrow> d_location_name d = ''Unknown Location''
               | Inl _ \<Rightarrow> False)"
proof (cases "extractLocation (cached_extraction e) (gemini e) (extraction_set_ok e)")
  case (Inl a)
  with valid noloc run created show ?thesis
    by (auto simp: post_disaster_def reply_def)
next
  case (Inr ex)
  show ?thesis
  proof (cases "db_write e = DbOk")
    case True
    with Inr valid noloc run created show ?thesis
      by (cases ex) (auto simp: post_disaster_def reply_def Let_def or_else_falsy or_else_nonempty)
  next
    case False
    with Inr valid noloc run created show ?thesis
      by (cases ex)
         (auto simp: post_disaster_def reply_def Let_def or_else_falsy or_else_nonempty
                     mock_createDisaster_def)
  qed
qed

text \<open>
  On a cache miss, a location that \<open>extractLocation\<close> returns is the trimmed answer
  of the model, and is not empty.
\<close>

lemma extractLocation_miss:
  assumes "extractLocation None upstream set_ok = Inr (Some g)"
  shows "\<exists>text. upstream = Inr text \<and> gr_location_name g = trim text \<and> trim text \<noteq> []"
  using assms
  by (auto simp: extractLocation_def Let_def split: sum.splits if_splits)

lemma extractLocation_main_st:
  "extractLocation None (Inr ''Main St'') True
     = Inr (Some \<lparr>gr_location_name = ''Main St'', gr_lat = 0, gr_lng = 0,
                    gr_formatted_address = ''Main St''\<rparr>)"
  by code_simp

lemma extractLocation_null:
  "extractLocation None (Inr ''null'') True = Inr None"
  by code_simp

theorem post_disaster_location_name_witness:
  "(\<exists>d. data (fst (post_disaster env_db_ok None flood_request empty_world)) = Some d
        \<and> d_location_name d = ''Main St'')
   \<and> (\<exists>d. data (fst (post_disaster env_db_down None flood_request empty_world)) = Some d
        \<and> d_location_name d = ''Unknown Location'')"
proof -
  have v: "\<not> falsy (c_title flood_request)" "\<not> falsy (c_description flood_request)"
    and n: "falsy (c_location_name flood_request)"
    by (simp_all add: falsy_def)
  have r1: "post_disaster env_db_ok None flood_request empty_world
              = (fst (post_disaster env_db_ok None flood_request empty_world),
                 snd (post_disaster env_db_ok None flood_request empty_world))"
    and r2: "post_disaster env_db_down None flood_request empty_world
              = (fst (post_disaster env_db_down None flood_request empty_world),
                 snd (post_disaster env_db_down None flood_request empty_world))"
    by simp_all
  have s1: "status (fst (post_disaster env_db_ok None flood_request empty_world)) = 201"
    by (simp add: post_disaster_def falsy_def extractLocation_main_st reply_def or_else_def Let_def)
  have s2: "status (fst (post_disaster env_db_down None flood_request empty_world)) = 201"
    by (simp add: post_disaster_def falsy_def extractLocation_null reply_def or_else_def Let_def
          mock_createDisaster_def)
  from post_disaster_location_name[OF v n r1 s1]
  have "\<exists>d. data (fst (post_disaster env_db_ok None flood_request empty_world)) = Some d
          \<and> d_location_name d = ''Main St''"
    by (auto simp: extractLocation_main_st or_else_def)
  moreover from post_disaster_location_name[OF v n r2 s2]
  have "\<exists>d. data (fst (post_disaster env_db_down None flood_request empty_world)) = Some d
          \<and> d_location_name d = ''Unknown Location''"
    by (auto simp: extractLocation_null)
  ultimately show ?thesis by simp
qed

text \<open>
  An answer of the model that is white space only is no location: \<open>extractLocation\<close>
  returns \<open>null\<close> and the created record is named \<open>Unknown Location\<close>.
\<close>

lemma extractLocation_blank: "extractLocation None (Inr [CHR 0xA0]) True = Inr None"
  by code_simp

lemma post_disaster_blank_extraction:
  "map_option d_location_name
     (data (fst (post_disaster (env_db_ok\<lparr>gemini := Inr [CHR 0xA0]\<rparr>) None flood_request empty_world)))
     = Some ''Unknown Location''"
  by (simp add: post_disaster_def falsy_def extractLocation_blank reply_def or_else_def Let_def)

section \<open>The fallback to the fixture store\<close>

text \<open>
  C5, as stated, for the update: with the database client throwing, \<open>PUT
  /api/disasters/disaster-1\<close> is answered with status 500 and \<open>success: false\<close>, although
  the fixture store holds a disaster with that id; the fixture store is not consulted.
\<close>

theorem put_disaster_no_fallback_counterexample:
  "put_disaster env_db_down None ''disaster-1'' title_update seeded_world
     = (\<lparr>status = 500, success = False, data = None,
         error_text = Some ''Internal server error'', message = None, pagination = None\<rparr>,
        seeded_world)
   \<and> mock_getDisasterById ''disaster-1'' (mockDisasters seeded_world) = Some disaster_1"
  by (simp add: put_disaster_def reply_def or_else_def mock_getDisasterById_def)

text \<open>
  The create route does not reach its fallback when \<open>extractLocation\<close> throws. With
  the whole database down, the cache write inside \<open>extractLocation\<close> fails after the
  model has found a location, and the request ends with 500.
\<close>

lemma post_disaster_extraction_store_failure:
  "post_disaster env_db_down_cache_write_fails None flood_request seeded_world
     = (\<lparr>status = 500, success = False, data = None,
         error_text = Some ''Internal server error'', message = None, pagination = None\<rparr>,
        seeded_world)"
proof -
  have "extractLocation None (Inr ''Main St'') False = Inl ExtractError"
    by code_simp
  then show ?thesis
    by (simp add: post_disaster_def reply_def falsy_def)
qed

text \<open>
  C5 (amended). Create: when the insert throws or reports an error, a request with
  non-empty title and description whose location extraction does not throw is answered
  with 201 and \<open>{success: true, data, message}\<close>, where \<open>data\<close> is the record appended to
  the fixture store; the database table is as before. List: when the count query throws
  or the page query throws or reports an error, the answer is 200 with \<open>success: true\<close>,
  the requested slice of the fixture store as data and a pagination object. Update:
  there is no fallback; when the lookup or the update throws or reports an error the
  answer is 404 or 500 with \<open>success: false\<close> and no data, and nothing changes.
\<close>

theorem disaster_fallback:
  "(\<not> falsy (c_title req) \<and> \<not> falsy (c_description req) \<and> db_write e \<noteq> DbOk
      \<and> (falsy (c_location_name req) \<longrightarrow>
            (\<exists>ex. extractLocation (cached_extraction e) (gemini e) (extraction_set_ok e)
                    = Inr ex))
    \<longrightarrow> (\<exists>d. post_disaster e header req w =
               (\<lparr>status = 201, success = True, data = Some d, error_text = None,
                 message = Some ''Disaster created successfully (mock mode)'',
                 pagination = None\<rparr>,
                w\<lparr>mockDisasters := mockDisasters w @ [d],
                  emitted := emitted w @ [Disaster_updated d]\<rparr>)
             \<and> d_title d = the (c_title req) \<and> d_description d = the (c_description req)))
   \<and> (count_outcome le = DbThrow \<or> page_outcome le \<noteq> DbOk
    \<longrightarrow> get_disasters le page limit w =
          \<lparr>status = 200, success = True,
           data = Some (js_slice (mockDisasters w)
                          (js_mul (js_sub page (Some 1)) limit)
                          (js_add (js_mul (js_sub page (Some 1)) limit) limit)),
           error_text = None, message = None,
           pagination = Some \<lparr>pg_page = page, pg_limit = limit,
                               pg_total = length (mockDisasters w),
                               pg_totalPages = ceil_div (length (mockDisasters w)) limit\<rparr>\<rparr>)
   \<and> (db_fetch e \<noteq> DbOk \<or> db_write e \<noteq> DbOk
    \<longrightarrow> \<not> success (fst (put_disaster e header i updates w))
        \<and> status (fst (put_disaster e header i updates w)) \<in> {404, 500}
        \<and> data (fst (put_disaster e header i updates w)) = None
        \<and> snd (put_disaster e header i updates w) = w)"
proof (intro conjI impI)
  assume a: "\<not> falsy (c_title req) \<and> \<not> falsy (c_description req) \<and> db_write e \<noteq> DbOk
      \<and> (falsy (c_location_name req) \<longrightarrow>
            (\<exists>ex. extractLocation (cached_extraction e) (gemini e) (extraction_set_ok e)
                    = Inr ex))"
  show "\<exists>d. post_disaster e header req w =
               (\<lparr>status = 201, success = True, data = Some d, error_text = None,
                 message = Some ''Disaster created successfully (mock mode)'',
                 pagination = None\<rparr>,
                w\<lparr>mockDisasters := mockDisasters w @ [d],
                  emitted := emitted w @ [Disaster_updated d]\<rparr>)
             \<and> d_title d = the (c_title req) \<and> d_description d = the (c_description req)"
  proof (cases "falsy (c_location_name req)")
    case True
    with a obtain ex where
      "extractLocation (cached_extraction e) (gemini e) (extraction_set_ok e) = Inr ex"
      by blast
    with a True show ?thesis
      by (simp add: post_disaster_def reply_def Let_def mock_createDisaster_def)
  next
    case False
    with a show ?thesis
      by (simp add: post_disaster_def reply_def Let_def mock_createDisaster_def)
  qed
next
  assume "count_outcome le = DbThrow \<or> page_outcome le \<noteq> DbOk"
  then show "get_disasters le page limit w =
          \<lparr>status = 200, success = True,
           data = Some (js_slice (mockDisasters w)
                          (js_mul (js_sub page (Some 1)) limit)
                          (js_add (js_mul (js_sub page (Some 1)) limit) limit)),
           error_text = None, message = None,
           pagination = Some \<lparr>pg_page = page, pg_limit = limit,
                               pg_total = length (mockDisasters w),
                               pg_totalPages = ceil_div (length (mockDisasters w)) limit\<rparr>\<rparr>"
    by (auto simp: get_disasters_def mock_getDisasters_def Let_def)
next
  assume b: "db_fetch e \<noteq> DbOk \<or> db_write e \<noteq> DbOk"
  have "\<not> success (fst (put_disaster e header i updates w))
        \<and> status (fst (put_disaster e header i updates w)) \<in> {404, 500}
        \<and> data (fst (put_disaster e header i updates w)) = None
        \<and> snd (put_disaster e header i updates w) = w"
    using b
    by (cases "db_fetch e"; cases "db_write e")
       (auto simp: put_disaster_def reply_def Let_def split: option.splits sum.splits)
  then show "\<not> success (fst (put_disaster e header i updates w))"
    and "status (fst (put_disaster e header i updates w)) \<in> {404, 500}"
    and "data (fst (put_disaster e header i updates w)) = None"
    and "snd (put_disaster e header i updates w) = w"
    by blast+
qed

theorem disaster_fallback_witness:
  "(\<exists>d. fst (post_disaster env_db_down None flood_request seeded_world) =
          \<lparr>status = 201, success = True, data = Some d, error_text = None,
           message = Some ''Disaster created successfully (mock mode)'',
           pagination = None\<rparr>)
   \<and> get_disasters list_db_down (Some 1) (Some 10) seeded_world =
        \<lparr>status = 200, success = True, data = Some [disaster_1],
         error_text = None, message = None,
         pagination = Some \<lparr>pg_page = Some 1, pg_limit = Some 10, pg_total = 1,
                             pg_totalPages = Some 1\<rparr>\<rparr>
   \<and> status (fst (put_disaster env_db_down None ''disaster-1'' title_update seeded_world)) \<in> {404, 500}"
proof -
  note f = disaster_fallback[of flood_request env_db_down None seeded_world list_db_down "Some 1" "Some 10"
      "''disaster-1''" title_update]
  have c: "\<not> falsy (c_title flood_request) \<and> \<not> falsy (c_description flood_request)
      \<and> db_write env_db_down \<noteq> DbOk
      \<and> (falsy (c_location_name flood_request) \<longrightarrow>
            (\<exists>ex. extractLocation (cached_extraction env_db_down) (gemini env_db_down)
                     (extraction_set_ok env_db_down) = Inr ex))"
    by (simp add: falsy_def extractLocation_null)
  have l: "count_outcome list_db_down = DbThrow \<or> page_outcome list_db_down \<noteq> DbOk"
    by simp
  have u: "db_fetch env_db_down \<noteq> DbOk \<or> db_write env_db_down \<noteq> DbOk"
    by simp
  have sl: "js_slice [disaster_1] (js_mul (js_sub (Some 1) (Some 1)) (Some 10))
              (js_add (js_mul (js_sub (Some 1) (Some 1)) (Some 10)) (Some 10)) = [disaster_1]"
    by (simp add: js_slice_def js_mul_def js_sub_def js_add_def slice_index_def)
  from f[THEN conjunct1, THEN mp, OF c]
  have "\<exists>d. fst (post_disaster env_db_down None flood_request seeded_world) =
          \<lparr>status = 201, success = True, data = Some d, error_text = None,
           message = Some ''Disaster created successfully (mock mode)'',
           pagination = None\<rparr>"
    by auto
  moreover from f[THEN conjunct2, THEN conjunct1, THEN mp, OF l]
  have "get_disasters list_db_down (Some 1) (Some 10) seeded_world =
        \<lparr>status = 200, success = True, data = Some [disaster_1],
         error_text = None, message = None,
         pagination = Some \<lparr>pg_page = Some 1, pg_limit = Some 10, pg_total = 1,
                             pg_totalPages = Some 1\<rparr>\<rparr>"
    by (simp add: sl ceil_div_def)
  moreover from f[THEN conjunct2, THEN conjunct2, THEN mp, OF u]
  have "status (fst (put_disaster env_db_down None ''disaster-1'' title_update seeded_world)) \<in> {404, 500}"
    by blast
  ultimately show ?thesis by blast
qed

text \<open>
  The slice of the fixture store: the second page of size one is the second record; a
  negative start counts from the end; NaN counts as 0.
\<close>

lemma js_slice_examples:
  "js_slice ''abcde'' (Some 1) (Some 3) = ''bc''"
  "js_slice ''abcde'' (Some (- 2)) (Some 9) = ''de''"
  "js_slice ''abcde'' None (Some 2) = ''ab''"
  "js_slice ''abcde'' (Some 3) (Some 1) = []"
  by (simp_all add: js_slice_def slice_index_def)

lemma mock_getDisasters_second_page:
  "mock_getDisasters (Some 2) (Some 1) [disaster_1, bluesky_disaster] = ([bluesky_disaster], 2)"
  by (simp add: mock_getDisasters_def js_slice_def slice_index_def js_mul_def js_sub_def
        js_add_def)

lemma get_disasters_fallback_second_page:
  "data (get_disasters list_db_down (Some 2) (Some 1)
           \<lparr>db_disasters = [], mockDisasters = [disaster_1, bluesky_disaster], emitted = []\<rparr>)
     = Some [bluesky_disaster]"
  by (simp add: get_disasters_def mock_getDisasters_second_page)

section \<open>Properties of the real-time data service\<close>

text \<open>
  C1: for every disaster id, absent or not, and whatever the six per-source methods
  return or throw, \<open>getRealTimeDisasterData\<close> returns a record; each of its six lists is
  the value of the source when that source fulfilled and the empty list when it
  rejected, whatever the other five did.
\<close>

theorem getRealTimeDisasterData_isolation:
  "\<exists>r. getRealTimeDisasterData gD gS gW gE gR gP disasterId = Inr r
     \<and> disasters r = (case gD disasterId of Inl _ \<Rightarrow> [] | Inr v \<Rightarrow> v)
     \<and> socialMedia r = (case gS disasterId of Inl _ \<Rightarrow> [] | Inr v \<Rightarrow> v)
     \<and> weather r = (case gW disasterId of Inl _ \<Rightarrow> [] | Inr v \<Rightarrow> v)
     \<and> emergencyAlerts r = (case gE disasterId of Inl _ \<Rightarrow> [] | Inr v \<Rightarrow> v)
     \<and> resources r = (case gR disasterId of Inl _ \<Rightarrow> [] | Inr v \<Rightarrow> v)
     \<and> reports r = (case gP disasterId of Inl _ \<Rightarrow> [] | Inr v \<Rightarrow> v)"
  by (simp add: getRealTimeDisasterData_def allSettled_def value_or_empty_def Let_def
           split: sum.splits)

theorem getRealTimeDisasterData_isolation_witness:
  "getRealTimeDisasterData (\<lambda>i. Inr [bluesky_disaster]) (\<lambda>i. Inr []) (\<lambda>i. Inl UpstreamError)
       (\<lambda>i. Inr [7::nat]) (\<lambda>i. Inl DbError) (\<lambda>i. Inr ([] :: unit list)) None
     = Inr \<lparr>disasters = [bluesky_disaster], socialMedia = [], weather = ([] :: unit list),
            emergencyAlerts = [7], resources = [], reports = []\<rparr>"
  using getRealTimeDisasterData_isolation[of "\<lambda>i. Inr [bluesky_disaster]" "\<lambda>i. Inr []"
      "\<lambda>i. Inl UpstreamError :: error + unit list" "\<lambda>i. Inr [7::nat]" "\<lambda>i. Inl DbError"
      "\<lambda>i. Inr ([] :: unit list)" None]
  by auto

subsection \<open>Filtering by disaster id\<close>

lemma cache_get_result:
  "cache_get s d t key tbl = (r, tbl') \<Longrightarrow>
     (\<forall>k. tbl' k = tbl k \<or> tbl' k = None)
     \<and> (case r of Some v \<Rightarrow> (\<exists>e. tbl key = Some e \<and> entry_value e = v) | None \<Rightarrow> True)"
  by (auto simp: cache_get_def cache_delete_def db_delete_where_def
           split: if_splits option.splits)

lemma cache_correlated_shrink:
  "cache_correlated prefix corr tbl \<Longrightarrow> \<forall>k. tbl' k = tbl k \<or> tbl' k = None
     \<Longrightarrow> cache_correlated prefix corr tbl'"
  unfolding cache_correlated_def
  by (metis option.distinct(1))

lemma cacheKey_truthy: "d \<noteq> [] \<Longrightarrow> cacheKey prefix (Some d) = prefix @ d"
  by (simp add: cacheKey_def or_else_def)

lemma store_and_return_result:
  "store_and_return io key xs ttl tbl = (r, tbl') \<Longrightarrow>
     (r = xs \<or> r = []) \<and> (tbl' = tbl \<or> (\<exists>e. tbl' = tbl(key \<mapsto> e) \<and> entry_value e = xs))"
  by (auto simp: store_and_return_def cache_set_def Let_def split: if_splits prod.splits sum.splits)

lemma store_correlated:
  assumes "cache_correlated prefix corr tbl"
      and "store_and_return io (prefix @ k) xs ttl tbl = (r, tbl')"
      and "k \<noteq> ''all'' \<longrightarrow> (\<forall>x \<in> set xs. corr x k)"
  shows "cache_correlated prefix corr tbl'"
proof -
  from store_and_return_result[OF assms(2)]
  consider "tbl' = tbl" | e where "tbl' = tbl(prefix @ k \<mapsto> e)" "entry_value e = xs"
    by blast
  then show ?thesis
  proof cases
    case 1
    with assms(1) show ?thesis by simp
  next
    case 2
    with assms(1,3) show ?thesis
      unfolding cache_correlated_def by auto
  qed
qed



lemma fetch_correlated:
  assumes pre: "(d \<noteq> ''all'' \<and> cache_correlated P corr tbl) \<or> tbl (P @ d) = None"
      and xs: "\<forall>x \<in> set xs. corr x d"
  shows "\<forall>x \<in> set (fst (case cache_get s dl t (P @ d) tbl of
                             (Some c, tbl') \<Rightarrow> (c, tbl')
                           | (None, tbl') \<Rightarrow> store_and_return io (P @ d) xs ttl tbl')).
           corr x d"
proof -
  obtain r tbl1 where g: "cache_get s dl t (P @ d) tbl = (r, tbl1)"
    by (cases "cache_get s dl t (P @ d) tbl") auto
  show ?thesis
  proof (cases r)
    case None
    obtain r' tbl2 where st: "store_and_return io (P @ d) xs ttl tbl1 = (r', tbl2)"
      by (cases "store_and_return io (P @ d) xs ttl tbl1") auto
    from store_and_return_result[OF st] have "r' = xs \<or> r' = []" by blast
    with xs g None st show ?thesis by auto
  next
    case (Some v)
    with cache_get_result[OF g] obtain e where e: "tbl (P @ d) = Some e" "entry_value e = v"
      by auto
    with pre have "\<forall>x \<in> set v. corr x d"
      unfolding cache_correlated_def by auto
    with g Some show ?thesis by simp
  qed
qed

lemma fetch_preserves:
  assumes inv: "cache_correlated P corr tbl"
      and xs: "k \<noteq> ''all'' \<longrightarrow> (\<forall>x \<in> set xs. corr x k)"
  shows "cache_correlated P corr
           (snd (case cache_get s dl t (P @ k) tbl of
                   (Some c, tbl') \<Rightarrow> (c, tbl')
                 | (None, tbl') \<Rightarrow> store_and_return io (P @ k) xs ttl tbl'))"
proof -
  obtain r tbl1 where g: "cache_get s dl t (P @ k) tbl = (r, tbl1)"
    by (cases "cache_get s dl t (P @ k) tbl") auto
  from cache_get_result[OF g] inv have c1: "cache_correlated P corr tbl1"
    using cache_correlated_shrink by blast
  show ?thesis
  proof (cases r)
    case (Some v)
    with g c1 show ?thesis by simp
  next
    case None
    obtain r' tbl2 where st: "store_and_return io (P @ k) xs ttl tbl1 = (r', tbl2)"
      by (cases "store_and_return io (P @ k) xs ttl tbl1") auto
    have "cache_correlated P corr tbl2"
      by (rule store_correlated[OF c1 st xs])
    with g None st show ?thesis by simp
  qed
qed

lemma getRealTimeDisasters_correlated:
  assumes "d \<noteq> []"
      and "(d \<noteq> ''all'' \<and> cache_correlated ''realtime_disasters:'' (\<lambda>x k. d_id x = k) tbl)
           \<or> tbl (''realtime_disasters:'' @ d) = None"
  shows "\<forall>x \<in> set (fst (getRealTimeDisasters io b em w (Some d) tbl)). d_id x = d"
  unfolding getRealTimeDisasters_def Let_def cacheKey_truthy[OF assms(1)]
  by (rule fetch_correlated[OF assms(2)]) (use assms(1) in \<open>auto simp: falsy_def\<close>)

lemma getRealTimeSocialMedia_correlated:
  assumes "d \<noteq> []"
      and "(d \<noteq> ''all'' \<and> cache_correlated ''realtime_social:''
                               (\<lambda>x k. p_disaster_id x = Some k) tbl)
           \<or> tbl (''realtime_social:'' @ d) = None"
  shows "\<forall>x \<in> set (fst (getRealTimeSocialMedia io b off (Some d) tbl)).
           p_disaster_id x = Some d"
  unfolding getRealTimeSocialMedia_def Let_def cacheKey_truthy[OF assms(1)]
  by (rule fetch_correlated[OF assms(2)]) (use assms(1) in \<open>auto simp: falsy_def\<close>)

lemma getRealTimeResources_correlated:
  assumes "d \<noteq> []"
      and "(d \<noteq> ''all'' \<and> cache_correlated ''realtime_resources:''
                               (\<lambda>x k. r_disaster_id x = k) tbl)
           \<or> tbl (''realtime_resources:'' @ d) = None"
  shows "\<forall>x \<in> set (fst (getRealTimeResources io sh (Some d) tbl)). r_disaster_id x = d"
  unfolding getRealTimeResources_def Let_def cacheKey_truthy[OF assms(1)]
  by (rule fetch_correlated[OF assms(2)])
     (use assms(1) in \<open>auto simp: redCrossResource_def or_else_def split: sum.splits option.splits\<close>)

lemma cacheKey_split:
  obtains "cacheKey P disasterId = P @ ''all''" "falsy disasterId"
  | d where "disasterId = Some d" "d \<noteq> []" "cacheKey P disasterId = P @ d"
proof (cases disasterId)
  case None
  then show ?thesis using that(1) by (simp add: cacheKey_def or_else_def falsy_def)
next
  case (Some t)
  then show ?thesis using that by (cases "t = []") (simp_all add: cacheKey_def or_else_def falsy_def)
qed

lemma getRealTimeDisasters_preserves:
  assumes "cache_correlated ''realtime_disasters:'' (\<lambda>x k. d_id x = k) tbl"
  shows "cache_correlated ''realtime_disasters:'' (\<lambda>x k. d_id x = k)
           (snd (getRealTimeDisasters io b em w disasterId tbl))"
proof (cases rule: cacheKey_split[of "''realtime_disasters:''" disasterId])
  case 1
  show ?thesis
    unfolding getRealTimeDisasters_def Let_def 1(1)
    by (rule fetch_preserves[OF assms]) simp
next
  case (2 d)
  show ?thesis
    unfolding getRealTimeDisasters_def Let_def 2(3)
    by (rule fetch_preserves[OF assms]) (use 2(1,2) in \<open>auto simp: falsy_def\<close>)
qed

lemma getRealTimeSocialMedia_preserves:
  assumes "cache_correlated ''realtime_social:'' (\<lambda>x k. p_disaster_id x = Some k) tbl"
  shows "cache_correlated ''realtime_social:'' (\<lambda>x k. p_disaster_id x = Some k)
           (snd (getRealTimeSocialMedia io b off disasterId tbl))"
proof (cases rule: cacheKey_split[of "''realtime_social:''" disasterId])
  case 1
  show ?thesis
    unfolding getRealTimeSocialMedia_def Let_def 1(1)
    by (rule fetch_preserves[OF assms]) simp
next
  case (2 d)
  show ?thesis
    unfolding getRealTimeSocialMedia_def Let_def 2(3)
    by (rule fetch_preserves[OF assms]) (use 2(1,2) in \<open>auto simp: falsy_def\<close>)
qed

lemma getRealTimeResources_preserves:
  assumes "cache_correlated ''realtime_resources:'' (\<lambda>x k. r_disaster_id x = k) tbl"
  shows "cache_correlated ''realtime_resources:'' (\<lambda>x k. r_disaster_id x = k)
           (snd (getRealTimeResources io sh disasterId tbl))"
proof (cases rule: cacheKey_split[of "''realtime_resources:''" disasterId])
  case 1
  show ?thesis
    unfolding getRealTimeResources_def Let_def 1(1)
    by (rule fetch_preserves[OF assms]) simp
next
  case (2 d)
  show ?thesis
    unfolding getRealTimeResources_def Let_def 2(3)
    by (rule fetch_preserves[OF assms])
       (use 2(1,2) in \<open>auto simp: redCrossResource_def or_else_def split: sum.splits option.splits\<close>)
qed


text \<open>
  The three methods keep the invariant, whatever id they are called with; the empty
  cache has it, and deleting rows keeps it.
\<close>

lemma realtime_cache_invariant:
  "cache_correlated ''realtime_disasters:'' (\<lambda>x k. d_id x = k) dt \<Longrightarrow>
     cache_correlated ''realtime_disasters:'' (\<lambda>x k. d_id x = k)
       (snd (getRealTimeDisasters io b em w disasterId dt))"
  "cache_correlated ''realtime_social:'' (\<lambda>x k. p_disaster_id x = Some k) st \<Longrightarrow>
     cache_correlated ''realtime_social:'' (\<lambda>x k. p_disaster_id x = Some k)
       (snd (getRealTimeSocialMedia io bp off disasterId st))"
  "cache_correlated ''realtime_resources:'' (\<lambda>x k. r_disaster_id x = k) rt \<Longrightarrow>
     cache_correlated ''realtime_resources:'' (\<lambda>x k. r_disaster_id x = k)
       (snd (getRealTimeResources io sh disasterId rt))"
  "cache_correlated P corr Map.empty"
  "cache_correlated P corr tbl \<Longrightarrow> cache_correlated P corr (snd (cache_clearExpired ok t tbl))"
  by (simp_all add: getRealTimeDisasters_preserves getRealTimeSocialMedia_preserves
        getRealTimeResources_preserves)
     (auto simp: cache_correlated_def cache_clearExpired_def db_delete_where_def
           split: option.splits if_splits)

text \<open>
  C2, as stated, at the empty id: it counts as no id, so nothing is filtered, and the
  shelters are labelled \<open>general\<close>.
\<close>

theorem realtime_empty_id_counterexample:
  "map d_id (fst (getRealTimeDisasters io_ok (Inr [bluesky_disaster]) (Inr []) (Inr [weather_disaster]) (Some [])
                    Map.empty)) = [''bluesky-1'', ''weather-9'']
   \<and> map r_disaster_id (fst (getRealTimeResources io_ok (Inr (Some [shelter_feature])) (Some [])
                    Map.empty)) = [''general'']"
  by (simp add: getRealTimeDisasters_def getRealTimeResources_def cacheKey_def or_else_def
        cache_get_def store_and_return_def cache_set_def max_time_def falsy_def
        source_or_empty_def redCrossResource_def Let_def)

text \<open>
  In general: without an id, or with the empty id, a request that misses the cache
  returns everything the sources gave (or nothing, when the store fails), and labels
  every shelter \<open>general\<close>.
\<close>

lemma fetch_miss:
  assumes "tbl key = None"
  shows "fst (case cache_get s dl t key tbl of
                (Some c, tbl') \<Rightarrow> (c, tbl')
              | (None, tbl') \<Rightarrow> store_and_return io key xs ttl tbl') \<in> {xs, []}"
proof -
  have g: "cache_get s dl t key tbl = (None, tbl)"
    using assms by (simp add: cache_get_def)
  obtain r tbl2 where st: "store_and_return io key xs ttl tbl = (r, tbl2)"
    by (cases "store_and_return io key xs ttl tbl") auto
  from store_and_return_result[OF st] have "r = xs \<or> r = []" by blast
  with g st show ?thesis by auto
qed


lemma getRealTimeDisasters_no_id:
  assumes "falsy disasterId" "dt (cacheKey ''realtime_disasters:'' disasterId) = None"
  shows "fst (getRealTimeDisasters io b em w disasterId dt)
             \<in> {source_or_empty b @ source_or_empty em @ source_or_empty w, []}"
  unfolding getRealTimeDisasters_def Let_def if_P[OF assms(1)]
  by (rule fetch_miss) (rule assms(2))

lemma getRealTimeSocialMedia_no_id:
  assumes "falsy disasterId" "st (cacheKey ''realtime_social:'' disasterId) = None"
  shows "fst (getRealTimeSocialMedia io bp off disasterId st)
             \<in> {source_or_empty bp @ source_or_empty off, []}"
  unfolding getRealTimeSocialMedia_def Let_def if_P[OF assms(1)]
  by (rule fetch_miss) (rule assms(2))

lemma getRealTimeResources_no_id:
  assumes "falsy disasterId" "rt (cacheKey ''realtime_resources:'' disasterId) = None"
  shows "\<forall>r \<in> set (fst (getRealTimeResources io sh disasterId rt)). r_disaster_id r = ''general''"
proof -
  let ?xs = "case sh of Inl e \<Rightarrow> [] | Inr None \<Rightarrow> []
             | Inr (Some features) \<Rightarrow> map (redCrossResource disasterId (clock io)) features"
  have "fst (getRealTimeResources io sh disasterId rt) \<in> {?xs, []}"
    unfolding getRealTimeResources_def Let_def
    by (rule fetch_miss) (rule assms(2))
  moreover have g: "or_else disasterId ''general'' = ''general''"
    using assms(1) by (rule or_else_falsy)
  have "\<forall>r \<in> set ?xs. r_disaster_id r = ''general''"
    by (cases sh; cases "projr sh") (auto simp: redCrossResource_def g)
  ultimately show ?thesis by auto
qed

text \<open>
  The key of the request for the id \<open>all\<close> is the key of the request without an id:
  after a request without an id has stored its unfiltered list, a request for \<open>all\<close>
  within the ttl gets that list.
\<close>

lemma realtime_all_key_collision:
  "map d_id (fst (getRealTimeDisasters io_ok (Inr []) (Inr []) (Inr []) (Some ''all'')
       (snd (getRealTimeDisasters io_ok (Inr [bluesky_disaster]) (Inr []) (Inr []) None Map.empty))))
     = [''bluesky-1'']"
  by (simp add: getRealTimeDisasters_def cacheKey_def or_else_def
        cache_get_def store_and_return_def cache_set_def max_time_def falsy_def
        source_or_empty_def Let_def)

text \<open>
  C2 (amended): for every non-empty disaster id \<open>d\<close>, every disaster returned by
  \<open>getRealTimeDisasters(d)\<close> has id \<open>d\<close>, every post returned by
  \<open>getRealTimeSocialMedia(d)\<close> has disaster id \<open>d\<close> and every resource returned by
  \<open>getRealTimeResources(d)\<close> has disaster id \<open>d\<close>, provided the cache has no row under
  the source's key for \<open>d\<close>, or \<open>d\<close> is not \<open>all\<close> and the cache rows of the source hold
  only what these methods stored (the invariant above).
\<close>

theorem realtime_results_correlated:
  assumes "d \<noteq> []"
      and "(d \<noteq> ''all''
            \<and> cache_correlated ''realtime_disasters:'' (\<lambda>x k. d_id x = k) dt
            \<and> cache_correlated ''realtime_social:'' (\<lambda>x k. p_disaster_id x = Some k) st
            \<and> cache_correlated ''realtime_resources:'' (\<lambda>x k. r_disaster_id x = k) rt)
           \<or> (dt (''realtime_disasters:'' @ d) = None
            \<and> st (''realtime_social:'' @ d) = None
            \<and> rt (''realtime_resources:'' @ d) = None)"
  shows "(\<forall>x \<in> set (fst (getRealTimeDisasters io1 b em w (Some d) dt)). d_id x = d)
       \<and> (\<forall>x \<in> set (fst (getRealTimeSocialMedia io2 bp off (Some d) st)).
             p_disaster_id x = Some d)
       \<and> (\<forall>x \<in> set (fst (getRealTimeResources io3 sh (Some d) rt)). r_disaster_id x = d)"
proof (intro conjI)
  show "\<forall>x \<in> set (fst (getRealTimeDisasters io1 b em w (Some d) dt)). d_id x = d"
    by (rule getRealTimeDisasters_correlated[OF assms(1)]) (use assms(2) in auto)
  show "\<forall>x \<in> set (fst (getRealTimeSocialMedia io2 bp off (Some d) st)).
          p_disaster_id x = Some d"
    by (rule getRealTimeSocialMedia_correlated[OF assms(1)]) (use assms(2) in auto)
  show "\<forall>x \<in> set (fst (getRealTimeResources io3 sh (Some d) rt)). r_disaster_id x = d"
    by (rule getRealTimeResources_correlated[OF assms(1)]) (use assms(2) in auto)
qed

theorem realtime_results_correlated_witness:
  "map d_id (fst (getRealTimeDisasters io_ok (Inr [bluesky_disaster])
                    (Inl UpstreamError) (Inr [weather_disaster]) (Some ''weather-9'') Map.empty))
     = [''weather-9'']
   \<and> map r_disaster_id (fst (getRealTimeResources io_ok (Inr (Some [shelter_feature]))
                    (Some ''weather-9'') Map.empty)) = [''weather-9'']"
proof -
  let ?ds = "fst (getRealTimeDisasters io_ok (Inr [bluesky_disaster])
                    (Inl UpstreamError) (Inr [weather_disaster]) (Some ''weather-9'') Map.empty)"
  let ?rs = "fst (getRealTimeResources io_ok (Inr (Some [shelter_feature])) (Some ''weather-9'')
                    Map.empty)"
  have n: "''weather-9'' \<noteq> []" by simp
  have c: "(''weather-9'' \<noteq> ''all''
            \<and> cache_correlated ''realtime_disasters:'' (\<lambda>x k. d_id x = k) Map.empty
            \<and> cache_correlated ''realtime_social:'' (\<lambda>x k. p_disaster_id x = Some k) Map.empty
            \<and> cache_correlated ''realtime_resources:'' (\<lambda>x k. r_disaster_id x = k) Map.empty)
           \<or> ((Map.empty :: Disaster list cache_table) (''realtime_disasters:'' @ ''weather-9'') = None
            \<and> (Map.empty :: SocialMediaPost list cache_table)
                 (''realtime_social:'' @ ''weather-9'') = None
            \<and> (Map.empty :: Resource list cache_table)
                 (''realtime_resources:'' @ ''weather-9'') = None)"
    by (simp add: cache_correlated_def)
  note t = realtime_results_correlated[OF n c, of io_ok
      "Inr [bluesky_disaster]" "Inl UpstreamError" "Inr [weather_disaster]"
      io_ok "Inr []" "Inr []" io_ok "Inr (Some [shelter_feature])"]
  have ld: "length ?ds = 1"
    by (simp add: getRealTimeDisasters_def cacheKey_def or_else_def
        cache_get_def store_and_return_def cache_set_def max_time_def falsy_def
        source_or_empty_def Let_def)
  have lr: "length ?rs = 1"
    by (simp add: getRealTimeResources_def cacheKey_def or_else_def
        cache_get_def store_and_return_def cache_set_def max_time_def Let_def)
  have one: "\<And>f xs (v :: string). length xs = 1 \<Longrightarrow> \<forall>x \<in> set xs. f x = v \<Longrightarrow> map f xs = [v]"
  proof -
    fix f :: "'z \<Rightarrow> string" and xs v
    assume "length xs = 1" "\<forall>x \<in> set xs. f x = v"
    then show "map f xs = [v]" by (cases xs) auto
  qed
  from t have "\<forall>x \<in> set ?ds. d_id x = ''weather-9''"
    and "\<forall>x \<in> set ?rs. r_disaster_id x = ''weather-9''"
    by blast+
  then show ?thesis using one[OF ld] one[OF lr] by blast
qed

section \<open>Properties of the resource list\<close>

text \<open>
  The route hands the distance filter to the database and does no distance arithmetic
  of its own: when \<open>lat\<close> and \<open>lng\<close> are both given, the query carries the
  \<open>st_dwithin\<close> filter on \<open>location\<close> with the value \<^verbatim>\<open>POINT(lng lat),radius\<close>
  (radius 10000 when the request names none), and otherwise it carries no distance
  filter.
\<close>

lemma build_query_st_dwithin:
  "rq_st_dwithin (build_query req) =
     (if falsy (rr_lat req) \<or> falsy (rr_lng req) then None
      else Some (''POINT('' @ the (rr_lng req) @ '' '' @ the (rr_lat req) @ ''),''
                  @ (case rr_radius req of None \<Rightarrow> ''10000'' | Some r \<Rightarrow> r)))"
  by (simp add: build_query_def)

text \<open>
  When the database answers, the data is the rows of its reply to that query, as they
  came: the route adds, drops and reorders nothing. Which rows those are is the
  database's doing.
\<close>

lemma get_resources_db_path:
  assumes "count_reply db (build_query req) = (count_out, count)"
      and "count_out \<noteq> DbThrow"
      and "page_reply db (build_query req)
             (js_mul (js_sub (rr_page req) (Some 1)) (rr_limit req))
             (js_sub (js_add (js_mul (js_sub (rr_page req) (Some 1)) (rr_limit req))
                        (rr_limit req)) (Some 1))
           = (DbOk, rows)"
  shows "data (get_resources db req mockResources)
           = Some (case rows of None \<Rightarrow> [] | Some r \<Rightarrow> r)"
  using assms by (simp add: get_resources_def Let_def)

text \<open>
  When the count query throws, or the page query throws or reports an error, the data
  is the slice of the fixture store for the page, filtered by disaster id only:
  \<open>lat\<close>, \<open>lng\<close> and \<open>radius\<close> play no part in it.
\<close>

lemma get_resources_fallback:
  assumes "fst (count_reply db (build_query req)) = DbThrow
           \<or> fst (page_reply db (build_query req)
                   (js_mul (js_sub (rr_page req) (Some 1)) (rr_limit req))
                   (js_sub (js_add (js_mul (js_sub (rr_page req) (Some 1)) (rr_limit req))
                              (rr_limit req)) (Some 1))) \<noteq> DbOk"
  shows "data (get_resources db req mockResources)
           = Some (js_slice
                     (if falsy (rr_disaster_id req) then mockResources
                      else filter (\<lambda>r. r_disaster_id r = the (rr_disaster_id req))
                             mockResources)
                     (js_mul (js_sub (rr_page req) (Some 1)) (rr_limit req))
                     (js_add (js_mul (js_sub (rr_page req) (Some 1)) (rr_limit req))
                        (rr_limit req)))"
  using assms
  by (auto simp: get_resources_def mock_getResources_def Let_def split: prod.splits)

text \<open>
  The request of the end-to-end scenario with the database down: both fixture
  resources come back, whatever their distance.
\<close>

lemma get_resources_fallback_example:
  "data (get_resources
           \<lparr>count_reply = (\<lambda>q. (DbThrow, None)), page_reply = (\<lambda>q lo hi. (DbThrow, None))\<rparr>
           nearby_request [near_resource, far_resource])
     = Some [near_resource, far_resource]"
  by (simp add: get_resources_def mock_getResources_def js_slice_def js_mul_def js_sub_def
        js_add_def slice_index_def falsy_def Let_def)

end
